theory Spec2Isabelle
  imports Complex_Main
begin

section \<open>Python values\<close>

text \<open>
  The values that travel through the modelled functions are what Python's \<open>json\<close>
  module produces: \<open>None\<close>, booleans, integers, floats, strings, lists and
  dictionaries with string keys, and \<open>bytes\<close>. A dictionary is an association list
  read with \<open>map_of\<close>. A \<open>str\<close> is carried as the bytes of its UTF-8 encoding: a
  character is a lead byte with the continuation bytes that follow it, so on ASCII
  text a \<open>char\<close> is a character. A float is carried as a real number.
\<close>

datatype pyval =
    PNone
  | PBool bool
  | PInt int
  | PFloat real
  | PStr string
  | PBytes "char list"
  | PList "pyval list"
  | PDict "(string \<times> pyval) list"

section \<open>Python operations on values\<close>

text \<open>Exceptions are values: a function that can raise returns \<open>py_exc + 'a\<close>, with
  \<open>Inl\<close> the exception.\<close>

datatype py_exc =
    TypeError | KeyError | AttributeError | ValueError | IndexError | OSError
  | UnicodeDecodeError | InvalidToken | OtherError

definition thn :: "py_exc + 'a \<Rightarrow> ('a \<Rightarrow> py_exc + 'b) \<Rightarrow> py_exc + 'b" where
  "thn r f = (case r of Inl e \<Rightarrow> Inl e | Inr x \<Rightarrow> f x)"

text \<open>Truth value testing (\<open>if x\<close>, \<open>not x\<close>).\<close>

fun py_truthy :: "pyval \<Rightarrow> bool" where
  "py_truthy PNone = False"
| "py_truthy (PBool b) = b"
| "py_truthy (PInt i) = (i \<noteq> 0)"
| "py_truthy (PFloat f) = (f \<noteq> 0)"
| "py_truthy (PStr s) = (s \<noteq> [])"
| "py_truthy (PBytes s) = (s \<noteq> [])"
| "py_truthy (PList xs) = (xs \<noteq> [])"
| "py_truthy (PDict d) = (d \<noteq> [])"

text \<open>\<open>xs[i]\<close> on a sequence: a negative index counts from the end, and an index outside
  \<open>-len(xs) .. len(xs) - 1\<close> raises IndexError.\<close>

definition py_index :: "'a list \<Rightarrow> int \<Rightarrow> py_exc + 'a" where
  "py_index xs i =
     (if 0 \<le> i \<and> i < int (length xs) then Inr (xs ! nat i)
      else if i < 0 \<and> - int (length xs) \<le> i then Inr (xs ! nat (int (length xs) + i))
      else Inl IndexError)"

text \<open>The characters of a \<open>str\<close>: indexing, iterating and slicing a \<open>str\<close> count
  characters, not bytes.\<close>

definition continuation :: "char \<Rightarrow> bool" where
  "continuation c = (128 \<le> (of_char c :: nat) \<and> (of_char c :: nat) \<le> 191)"

function utf8_chars :: "string \<Rightarrow> string list" where
  "utf8_chars [] = []"
| "utf8_chars (c # cs) = (c # takeWhile continuation cs) # utf8_chars (dropWhile continuation cs)"
  by pat_completeness auto
termination
  by (relation "measure length") (auto simp: length_dropWhile_le less_Suc_eq_le)

text \<open>\<open>v[k]\<close> with a string key \<open>k\<close>, and \<open>v[i]\<close> with an integer \<open>i\<close>.\<close>

fun getitem_str :: "pyval \<Rightarrow> string \<Rightarrow> py_exc + pyval" where
  "getitem_str (PDict d) k = (case map_of d k of None \<Rightarrow> Inl KeyError | Some v \<Rightarrow> Inr v)"
| "getitem_str _ k = Inl TypeError"

fun getitem_int :: "pyval \<Rightarrow> int \<Rightarrow> py_exc + pyval" where
  "getitem_int (PList xs) i = py_index xs i"
| "getitem_int (PStr s) i = thn (py_index (utf8_chars s) i) (\<lambda>c. Inr (PStr c))"
| "getitem_int (PBytes s) i = thn (py_index s i) (\<lambda>c. Inr (PInt (of_char c)))"
| "getitem_int (PDict d) i = Inl KeyError"
| "getitem_int _ i = Inl TypeError"

text \<open>\<open>v.keys()\<close> and \<open>v.get(k, default)\<close> exist on dictionaries only.\<close>

fun py_keys :: "pyval \<Rightarrow> py_exc + string list" where
  "py_keys (PDict d) = Inr (map fst d)"
| "py_keys _ = Inl AttributeError"

fun dict_get :: "pyval \<Rightarrow> string \<Rightarrow> pyval \<Rightarrow> py_exc + pyval" where
  "dict_get (PDict d) k dflt = (case map_of d k of None \<Rightarrow> Inr dflt | Some v \<Rightarrow> Inr v)"
| "dict_get _ k dflt = Inl AttributeError"

text \<open>\<open>for x in v\<close>: the elements of a list, the keys of a dictionary, the characters
  of a string, the byte values of a bytes object.\<close>

fun py_iter :: "pyval \<Rightarrow> py_exc + pyval list" where
  "py_iter (PList xs) = Inr xs"
| "py_iter (PDict d) = Inr (map (\<lambda>kv. PStr (fst kv)) d)"
| "py_iter (PStr s) = Inr (map PStr (utf8_chars s))"
| "py_iter (PBytes s) = Inr (map (\<lambda>c. PInt (of_char c)) s)"
| "py_iter _ = Inl TypeError"

text \<open>\<open>k in v\<close> for a string \<open>k\<close>: a key of a dictionary, an element of a list, a
  substring of a string; every other operand raises TypeError.\<close>

fun contains_sub :: "'a list \<Rightarrow> 'a list \<Rightarrow> bool" where
  "contains_sub s [] = (s = [])"
| "contains_sub s (y # ys) = (take (length s) (y # ys) = s \<or> contains_sub s ys)"

fun py_contains :: "pyval \<Rightarrow> string \<Rightarrow> py_exc + bool" where
  "py_contains (PDict d) k = Inr (k \<in> set (map fst d))"
| "py_contains (PList xs) k = Inr (PStr k \<in> set xs)"
| "py_contains (PStr s) k = Inr (contains_sub k s)"
| "py_contains _ k = Inl TypeError"

text \<open>\<open>b.decode('utf-8')\<close> raises UnicodeDecodeError unless the bytes are well-formed
  UTF-8: no overlong form, no surrogate, nothing above U+10FFFF.\<close>

fun valid_utf8 :: "char list \<Rightarrow> bool" where
  "valid_utf8 [] = True"
| "valid_utf8 [a] = ((of_char a :: nat) < 128)"
| "valid_utf8 [a, b] =
     ((of_char a :: nat) < 128 \<and> valid_utf8 [b]
      \<or> 194 \<le> (of_char a :: nat) \<and> (of_char a :: nat) \<le> 223 \<and> continuation b)"
| "valid_utf8 [a, b, c] =
     ((of_char a :: nat) < 128 \<and> valid_utf8 [b, c]
      \<or> 194 \<le> (of_char a :: nat) \<and> (of_char a :: nat) \<le> 223 \<and> continuation b \<and> valid_utf8 [c]
      \<or> 224 \<le> (of_char a :: nat) \<and> (of_char a :: nat) \<le> 239 \<and> continuation b \<and> continuation c
        \<and> ((of_char a :: nat) = 224 \<longrightarrow> 160 \<le> (of_char b :: nat))
        \<and> ((of_char a :: nat) = 237 \<longrightarrow> (of_char b :: nat) \<le> 159))"
| "valid_utf8 (a # b # c # d # rest) =
     ((of_char a :: nat) < 128 \<and> valid_utf8 (b # c # d # rest)
      \<or> 194 \<le> (of_char a :: nat) \<and> (of_char a :: nat) \<le> 223 \<and> continuation b
        \<and> valid_utf8 (c # d # rest)
      \<or> 224 \<le> (of_char a :: nat) \<and> (of_char a :: nat) \<le> 239 \<and> continuation b \<and> continuation c
        \<and> ((of_char a :: nat) = 224 \<longrightarrow> 160 \<le> (of_char b :: nat))
        \<and> ((of_char a :: nat) = 237 \<longrightarrow> (of_char b :: nat) \<le> 159)
        \<and> valid_utf8 (d # rest)
      \<or> 240 \<le> (of_char a :: nat) \<and> (of_char a :: nat) \<le> 244 \<and> continuation b \<and> continuation c
        \<and> continuation d
        \<and> ((of_char a :: nat) = 240 \<longrightarrow> 144 \<le> (of_char b :: nat))
        \<and> ((of_char a :: nat) = 244 \<longrightarrow> (of_char b :: nat) \<le> 143)
        \<and> valid_utf8 rest)"

definition decode_utf8 :: "char list \<Rightarrow> py_exc + string" where
  "decode_utf8 b = (if valid_utf8 b then Inr b else Inl UnicodeDecodeError)"

fun is_dict :: "pyval \<Rightarrow> bool" where
  "is_dict (PDict d) = True"
| "is_dict _ = False"

text \<open>The logging module: the level and the message of each record, oldest first.\<close>

datatype log_level = INFO | WARNING | ERROR | CRITICAL

type_synonym log = "(log_level \<times> string) list"

section \<open>helpers/api\_client.py: URL preparation\<close>

text \<open>\<open>str.rstrip('/')\<close> and \<open>str.lstrip('/')\<close>: every trailing respectively leading
  slash is removed.\<close>

definition rstrip_slash :: "string \<Rightarrow> string" where
  "rstrip_slash s = rev (dropWhile (\<lambda>c. c = CHR ''/'') (rev s))"

definition lstrip_slash :: "string \<Rightarrow> string" where
  "lstrip_slash s = dropWhile (\<lambda>c. c = CHR ''/'') s"

text \<open>\<open>ApiClient.__init__\<close>: the stored base URL is the argument without its trailing
  slashes when the argument is a string, and \<open>None\<close> otherwise.\<close>

definition init_base_url :: "string option \<Rightarrow> string option" where
  "init_base_url base_url = (case base_url of Some b \<Rightarrow> Some (rstrip_slash b) | None \<Rightarrow> None)"

text \<open>\<open>ApiClient._prepare_url\<close>: \<open>if self.base_url\<close> is false for \<open>None\<close> and for the
  empty string.\<close>

definition prepare_url :: "string option \<Rightarrow> string \<Rightarrow> string" where
  "prepare_url base_url endpoint =
     (case base_url of
        Some b \<Rightarrow> if b \<noteq> [] then b @ ''/'' @ lstrip_slash endpoint else lstrip_slash endpoint
      | None \<Rightarrow> lstrip_slash endpoint)"

section \<open>helpers/api\_client.py: requests\<close>

text \<open>
  What the \<open>requests\<close> library hands back for one call on the session: a response,
  or one of the exceptions the library raises, all of them subclasses of
  \<open>RequestException\<close>. Of these \<open>Timeout\<close> and \<open>HTTPError\<close> have \<open>except\<close> clauses of
  their own in \<open>request\<close>. A response carries its status code, its body, and what
  \<open>response.json()\<close> gives for that body (\<open>None\<close> here when it raises
  \<open>JSONDecodeError\<close>, itself a \<open>RequestException\<close>).
\<close>

record response =
  status_code :: int
  content :: "char list"
  json_body :: "pyval option"

datatype send_outcome =
    Responded response
  | RaisedTimeout
  | RaisedHTTPError
  | RaisedRequestException

text \<open>The client, and the world it talks to: the outcome of the \<open>n\<close>-th call on the
  session, the calls made so far (method, URL, headers) and the log.\<close>

record api_client =
  base_url :: "string option"
  default_headers :: "(string \<times> string) list"
  splunk_log_url :: "string option"
  splunk_log_headers :: "(string \<times> string) list option"

record http_world =
  outcomes :: "nat \<Rightarrow> send_outcome"
  calls :: "(string \<times> string \<times> (string \<times> string) list) list"
  records :: log

definition logger :: "log_level \<Rightarrow> string \<Rightarrow> http_world \<Rightarrow> http_world" where
  "logger lvl msg w = w\<lparr>records := records w @ [(lvl, msg)]\<rparr>"

definition session_request ::
  "http_world \<Rightarrow> string \<Rightarrow> string \<Rightarrow> (string \<times> string) list \<Rightarrow> send_outcome \<times> http_world" where
  "session_request w method url headers =
     (outcomes w (length (calls w)), w\<lparr>calls := calls w @ [(method, url, headers)]\<rparr>)"

text \<open>\<open>{**self.default_headers, **(headers or {})}\<close>: the defaults in their order, each
  overridden where \<open>headers\<close> has the key, then the remaining entries of \<open>headers\<close>.\<close>

definition merge_headers ::
  "(string \<times> string) list \<Rightarrow> (string \<times> string) list \<Rightarrow> (string \<times> string) list" where
  "merge_headers dflt headers =
     map (\<lambda>kv. (fst kv, case map_of headers (fst kv) of Some v \<Rightarrow> v | None \<Rightarrow> snd kv)) dflt
     @ filter (\<lambda>kv. fst kv \<notin> set (map fst dflt)) headers"

text \<open>\<open>response.raise_for_status()\<close> raises for the codes 400 to 599; \<open>bool(response)\<close>
  is true for every other code.\<close>

definition raises_for_status :: "response \<Rightarrow> bool" where
  "raises_for_status r = (400 \<le> status_code r \<and> status_code r < 600)"

definition splunk_configured :: "api_client \<Rightarrow> bool" where
  "splunk_configured self =
     ((case splunk_log_url self of Some u \<Rightarrow> u \<noteq> [] | None \<Rightarrow> False)
      \<and> (case splunk_log_headers self of Some h \<Rightarrow> h \<noteq> [] | None \<Rightarrow> False))"

text \<open>The \<open>session.post\<close> of both logging functions sits in a \<open>try\<close> that catches
  \<open>RequestException\<close>; the response is not looked at.\<close>

definition splunk_post :: "api_client \<Rightarrow> http_world \<Rightarrow> http_world" where
  "splunk_post self w =
     (case session_request w ''POST'' (case splunk_log_url self of Some u \<Rightarrow> u | None \<Rightarrow> [])
             (case splunk_log_headers self of Some h \<Rightarrow> h | None \<Rightarrow> []) of
        (Responded r, w1) \<Rightarrow> w1
      | (_, w1) \<Rightarrow> logger ERROR ''Failed to log response to Splunk: %s'' w1)"

text \<open>\<open>log_response\<close>: \<open>response.content.decode()\<close> is evaluated outside the \<open>try\<close>.\<close>

definition log_response :: "api_client \<Rightarrow> response \<Rightarrow> string \<Rightarrow> http_world \<Rightarrow> py_exc option \<times> http_world" where
  "log_response self r destination w =
     (if \<not> splunk_configured self
      then (None, logger WARNING ''Splunk logging is not configured.'' w)
      else (case decode_utf8 (content r) of
              Inl e \<Rightarrow> (Some e, w)
            | Inr body \<Rightarrow> (None, splunk_post self w)))"

definition log_success :: "api_client \<Rightarrow> bool \<Rightarrow> string \<Rightarrow> http_world \<Rightarrow> py_exc option \<times> http_world" where
  "log_success self success destination w =
     (if \<not> splunk_configured self
      then (None, logger WARNING ''Splunk logging is not configured.'' w)
      else (None, splunk_post self w))"

text \<open>The \<open>finally\<close> clause of \<open>request\<close>. An exception raised there replaces the
  result of the \<open>try\<close> statement, whether that was a return or an exception.\<close>

definition finally_clause ::
  "api_client \<Rightarrow> string option \<Rightarrow> response option \<Rightarrow> http_world \<Rightarrow> py_exc option \<times> http_world" where
  "finally_clause self destination resp w =
     (case destination of
        None \<Rightarrow> (None, w)
      | Some d \<Rightarrow>
          if d = [] then (None, w)
          else (case resp of
                  Some r \<Rightarrow>
                    if splunk_configured self \<and> \<not> raises_for_status r
                    then log_response self r d w
                    else log_success self False d w
                | None \<Rightarrow> log_success self False d w))"

definition finish ::
  "api_client \<Rightarrow> string option \<Rightarrow> response option \<Rightarrow> py_exc + pyval \<Rightarrow> http_world
     \<Rightarrow> (py_exc + pyval) \<times> http_world" where
  "finish self destination resp result w =
     (case finally_clause self destination resp w of
        (Some e, w1) \<Rightarrow> (Inl e, w1)
      | (None, w1) \<Rightarrow> (result, w1))"

text \<open>\<open>for msg in error_json["messages"]: logger.error(..., msg.get('type'),
  msg.get('text'))\<close>.\<close>

fun log_messages :: "pyval list \<Rightarrow> http_world \<Rightarrow> py_exc option \<times> http_world" where
  "log_messages [] w = (None, w)"
| "log_messages (msg # rest) w =
     (case thn (dict_get msg ''type'' PNone) (\<lambda>t. dict_get msg ''text'' PNone) of
        Inl e \<Rightarrow> (Some e, w)
      | Inr t \<Rightarrow> log_messages rest (logger ERROR ''API error for %s: %s - %s'' w))"

text \<open>The body of \<open>except HTTPError\<close> after the \<open>handle_400\<close> test: only
  \<open>JSONDecodeError\<close> is caught around it.\<close>

definition log_http_error :: "response \<Rightarrow> http_world \<Rightarrow> py_exc option \<times> http_world" where
  "log_http_error r w =
     (case json_body r of
        None \<Rightarrow> (None, logger ERROR ''Raw response: %s'' (logger ERROR ''HTTP error for %s: %s'' w))
      | Some error_json \<Rightarrow>
         (case py_contains error_json ''messages'' of
            Inl e \<Rightarrow> (Some e, w)
          | Inr present \<Rightarrow>
              if present
              then (case thn (getitem_str error_json ''messages'') py_iter of
                      Inl e \<Rightarrow> (Some e, w)
                    | Inr msgs \<Rightarrow> log_messages msgs w)
              else (None, logger ERROR ''Response JSON: %s''
                            (logger ERROR ''HTTP error for %s: %s'' w))))"

definition request ::
  "api_client \<Rightarrow> http_world \<Rightarrow> string \<Rightarrow> string \<Rightarrow> (string \<times> string) list \<Rightarrow> string option
     \<Rightarrow> bool \<Rightarrow> bool \<Rightarrow> (py_exc + pyval) \<times> http_world" where
  "request self w method endpoint headers destination handle_400 raw =
     (case session_request w method (prepare_url (base_url self) endpoint)
             (merge_headers (default_headers self) headers) of
        (RaisedTimeout, w1) \<Rightarrow>
          finish self destination None (Inr PNone) (logger ERROR ''Request to %s timed out.'' w1)
      | (RaisedHTTPError, w1) \<Rightarrow>
          finish self destination None (Inr PNone)
            (logger ERROR ''No response on HTTPError for %s: %s'' w1)
      | (RaisedRequestException, w1) \<Rightarrow>
          finish self destination None (Inr PNone) (logger ERROR ''Request exception for %s: %s'' w1)
      | (Responded r, w1) \<Rightarrow>
          if raises_for_status r
          then
            (if handle_400 \<and> status_code r = 400
             then finish self destination (Some r) (Inr (PDict [(''message'', PStr ''Bad request'')]))
                    (logger INFO ''Bad request accepted as having meaning (probably non existent annature envelope) for %s: %s'' w1)
             else (case log_http_error r w1 of
                     (Some e, w2) \<Rightarrow> finish self destination (Some r) (Inl e) w2
                   | (None, w2) \<Rightarrow> finish self destination (Some r) (Inr PNone) w2))
          else if raw then finish self destination (Some r) (Inr (PBytes (content r))) w1
          else (case json_body r of
                  Some v \<Rightarrow> finish self destination (Some r) (Inr v) w1
                | None \<Rightarrow>
                    finish self destination (Some r) (Inr PNone)
                      (logger ERROR ''Request exception for %s: %s'' w1)))"

text \<open>The convenience wrappers fix the method.\<close>

definition get ::
  "api_client \<Rightarrow> http_world \<Rightarrow> string \<Rightarrow> (string \<times> string) list \<Rightarrow> string option
     \<Rightarrow> bool \<Rightarrow> bool \<Rightarrow> (py_exc + pyval) \<times> http_world" where
  "get self w endpoint headers destination handle_400 raw =
     request self w ''GET'' endpoint headers destination handle_400 raw"

definition post ::
  "api_client \<Rightarrow> http_world \<Rightarrow> string \<Rightarrow> (string \<times> string) list \<Rightarrow> string option
     \<Rightarrow> bool \<Rightarrow> bool \<Rightarrow> (py_exc + pyval) \<times> http_world" where
  "post self w endpoint headers destination handle_400 raw =
     request self w ''POST'' endpoint headers destination handle_400 raw"

definition put ::
  "api_client \<Rightarrow> http_world \<Rightarrow> string \<Rightarrow> (string \<times> string) list \<Rightarrow> string option
     \<Rightarrow> bool \<Rightarrow> bool \<Rightarrow> (py_exc + pyval) \<times> http_world" where
  "put self w endpoint headers destination handle_400 raw =
     request self w ''PUT'' endpoint headers destination handle_400 raw"

definition delete ::
  "api_client \<Rightarrow> http_world \<Rightarrow> string \<Rightarrow> (string \<times> string) list \<Rightarrow> string option
     \<Rightarrow> bool \<Rightarrow> bool \<Rightarrow> (py_exc + pyval) \<times> http_world" where
  "delete self w endpoint headers destination handle_400 raw =
     request self w ''DELETE'' endpoint headers destination handle_400 raw"

text \<open>An error body that the \<open>except HTTPError\<close> clause reads without raising: not JSON
  at all, or an object whose \<open>messages\<close>, if it has the key, is a list of objects.\<close>

definition error_envelope :: "response \<Rightarrow> bool" where
  "error_envelope r =
     (case json_body r of
        None \<Rightarrow> True
      | Some (PDict d) \<Rightarrow>
          (case map_of d ''messages'' of
             None \<Rightarrow> True
           | Some (PList msgs) \<Rightarrow> list_all is_dict msgs
           | Some _ \<Rightarrow> False)
      | Some _ \<Rightarrow> False)"

text \<open>An envelope with an empty \<open>messages\<close> list: the loop over it logs nothing.\<close>

definition silent_envelope :: "response \<Rightarrow> bool" where
  "silent_envelope r =
     (case json_body r of
        Some (PDict d) \<Rightarrow> map_of d ''messages'' = Some (PList [])
      | _ \<Rightarrow> False)"

text \<open>
  The failures that \<open>request\<close> turns into \<open>None\<close>: a timeout, any other exception of
  the library, a response with an error status whose body the \<open>except HTTPError\<close>
  clause can read (unless \<open>handle_400\<close> is set and the status is 400), and a response
  with any other status whose body is not JSON when JSON was asked for, provided
  the \<open>finally\<close> clause can decode the body where it does so (a destination is given
  and Splunk logging is configured).
\<close>

definition absorbed_failure :: "api_client \<Rightarrow> string option \<Rightarrow> bool \<Rightarrow> bool \<Rightarrow> send_outcome \<Rightarrow> bool" where
  "absorbed_failure self destination handle_400 raw out =
     (case out of
        Responded r \<Rightarrow>
          if raises_for_status r
          then error_envelope r \<and> \<not> (handle_400 \<and> status_code r = 400)
          else \<not> raw \<and> json_body r = None
               \<and> (destination = None \<or> destination = Some [] \<or> \<not> splunk_configured self
                    \<or> valid_utf8 (content r))
      | _ \<Rightarrow> True)"

definition silent_failure :: "send_outcome \<Rightarrow> bool" where
  "silent_failure out =
     (case out of Responded r \<Rightarrow> raises_for_status r \<and> silent_envelope r | _ \<Rightarrow> False)"

section \<open>tasks/google\_sheets.py: cell value classification\<close>

text \<open>\<open>Sheet.value_to_object\<close>. The \<open>isinstance\<close> tests are tried in the source's order:
  \<open>bool\<close> before \<open>(float, int)\<close>, then non-empty \<open>str\<close>; everything else gives \<open>None\<close>.\<close>

fun value_to_object :: "pyval \<Rightarrow> pyval" where
  "value_to_object (PBool b) = PDict [(''boolValue'', PBool b)]"
| "value_to_object (PInt i) = PDict [(''numberValue'', PInt i)]"
| "value_to_object (PFloat f) = PDict [(''numberValue'', PFloat f)]"
| "value_to_object (PStr s) =
     (if length s \<noteq> 0 then
        (if length s > 0 \<and> hd s = CHR ''=''
         then PDict [(''formulaValue'', PStr s)]
         else PDict [(''stringValue'', PStr s)])
      else PNone)"
| "value_to_object _ = PNone"

section \<open>tasks/google\_sheets.py and tasks/google\_docs.py: the document proxies\<close>

subsection \<open>The Google API service\<close>

text \<open>
  One call of \<open>execute()\<close> on a request built by the Google client library either
  returns the decoded response or raises: \<open>HttpError\<close> with its status code,
  \<open>TimeoutError\<close>, or an exception that \<open>batch_update\<close> does not catch.

  The world outside the process: whether \<open>start_service()\<close> raises, what the
  \<open>n\<close>-th \<open>execute()\<close> since the start of the run gives, the calls executed so far
  (document id and body, oldest first), whether writing a file under \<open>logs/\<close>
  raises, the objects written there, and the log.
\<close>

datatype attempt = Returned pyval | HttpError int | TimeoutError | Raised py_exc

record gworld =
  start_service_error :: "py_exc option"
  responses :: "nat \<Rightarrow> attempt"
  executed :: "(pyval \<times> pyval) list"
  log_json_error :: "py_exc option"
  files :: "pyval list"
  logged :: log

definition RETRIES :: nat where
  "RETRIES = 5"

definition log_to :: "log_level \<Rightarrow> string \<Rightarrow> gworld \<Rightarrow> gworld" where
  "log_to lvl msg w = w\<lparr>logged := logged w @ [(lvl, msg)]\<rparr>"

text \<open>\<open>service.batchUpdate(**kwargs).execute()\<close>: one network call.\<close>

definition execute :: "gworld \<Rightarrow> pyval \<Rightarrow> pyval \<Rightarrow> attempt \<times> gworld" where
  "execute w ident body =
     (responses w (length (executed w)), w\<lparr>executed := executed w @ [(ident, body)]\<rparr>)"

text \<open>
  \<open>batch_update\<close> (the same loop in both modules): \<open>for i in range(RETRIES)\<close>, return
  the data of the first attempt that does not raise; after a \<open>TimeoutError\<close> or an
  \<open>HttpError\<close> with status 500 or 503 try again unless this was the last round;
  after any other \<open>HttpError\<close>, or in the last round, log and leave the loop; the
  function then returns \<open>None\<close>. The first argument counts the rounds that remain,
  the second is \<open>i\<close>.
\<close>

fun batch_update_rounds :: "nat \<Rightarrow> nat \<Rightarrow> string \<Rightarrow> gworld \<Rightarrow> pyval \<Rightarrow> pyval \<Rightarrow> (py_exc + pyval) \<times> gworld" where
  "batch_update_rounds 0 i msg w ident body = (Inr PNone, w)"
| "batch_update_rounds (Suc n) i msg w ident body =
     (case execute w ident body of
        (Returned data, w1) \<Rightarrow> (Inr data, w1)
      | (HttpError status, w1) \<Rightarrow>
          if i < RETRIES - 1 \<and> status \<in> {500, 503}
          then batch_update_rounds n (i + 1) msg w1 ident body
          else (Inr PNone, log_to ERROR msg w1)
      | (TimeoutError, w1) \<Rightarrow>
          if i < RETRIES - 1
          then batch_update_rounds n (i + 1) msg w1 ident body
          else (Inr PNone, log_to ERROR msg w1)
      | (Raised e, w1) \<Rightarrow> (Inl e, w1))"

definition sheets_batch_update :: "gworld \<Rightarrow> pyval \<Rightarrow> pyval \<Rightarrow> (py_exc + pyval) \<times> gworld" where
  "sheets_batch_update w spreadsheetId body =
     batch_update_rounds RETRIES 0 ''Google sheets batch update request API error: %s'' w spreadsheetId body"

definition docs_batch_update :: "gworld \<Rightarrow> pyval \<Rightarrow> pyval \<Rightarrow> (py_exc + pyval) \<times> gworld" where
  "docs_batch_update w documentId body =
     batch_update_rounds RETRIES 0 ''Google Docs batchUpdate API error: %s'' w documentId body"

text \<open>\<open>helpers/files.py\<close>, \<open>log_json\<close>: opens a file under \<open>logs/\<close> and dumps the object;
  the exception of a failed \<open>open\<close> or \<open>dump\<close> is not caught.\<close>

definition log_json :: "gworld \<Rightarrow> pyval \<Rightarrow> py_exc option \<times> gworld" where
  "log_json w obj =
     (case log_json_error w of
        Some e \<Rightarrow> (Some e, w)
      | None \<Rightarrow> (None, w\<lparr>files := files w @ [obj]\<rparr>))"

subsection \<open>The proxies\<close>

text \<open>
  The three classes keep the last fetched structure in \<open>self.json\<close> and the queued
  operations in \<open>self.requests\<close>; \<open>Spreadsheet\<close> and \<open>Sheet\<close> both carry
  \<open>spreadsheet_id\<close>. \<open>title_key\<close> is a dictionary from sheet ids to titles.
\<close>

record document_proxy =
  json :: pyval
  requests :: "pyval list"

record document = document_proxy +
  document_id :: pyval

record gsheets_proxy = document_proxy +
  spreadsheet_id :: pyval

record spreadsheet = gsheets_proxy +
  title_key :: "(pyval \<times> pyval) list"

record sheet = gsheets_proxy +
  sheet_id :: pyval
  sheet_name :: pyval
  width :: nat
  cell_array :: "pyval list list"

text \<open>A mutating method only appends to the queue; \<open>Document.replace_all_text\<close> and
  \<open>Spreadsheet.delete_sheet\<close> stand for the rest.\<close>

definition replace_all_text :: "document \<Rightarrow> string \<Rightarrow> string \<Rightarrow> document" where
  "replace_all_text self find_text replace_text =
     self\<lparr>requests := requests self @
       [PDict [(''replaceAllText'', PDict [
          (''replaceText'', PStr replace_text),
          (''containsText'', PDict [(''text'', PStr find_text), (''matchCase'', PBool True),
                                    (''searchByRegex'', PBool False)])])]]\<rparr>"

definition delete_sheet :: "spreadsheet \<Rightarrow> pyval \<Rightarrow> spreadsheet" where
  "delete_sheet self sheetId =
     self\<lparr>requests := requests self @ [PDict [(''deleteSheet'', PDict [(''sheetId'', sheetId)])]]\<rparr>"

text \<open>\<open>Sheet.delete_rows\<close>: nothing is queued for \<open>number < 1\<close>.\<close>

definition delete_rows :: "sheet \<Rightarrow> int \<Rightarrow> int \<Rightarrow> sheet" where
  "delete_rows self start_index number =
     (if number < 1 then self
      else self\<lparr>requests := requests self @
        [PDict [(''deleteDimension'', PDict [(''range'', PDict [
           (''sheetId'', sheet_id self), (''dimension'', PStr ''ROWS''),
           (''startIndex'', PInt start_index), (''endIndex'', PInt (start_index + number))])])]]\<rparr>)"

subsection \<open>Document.commit\_changes\<close>

definition document_commit_changes :: "document \<Rightarrow> gworld \<Rightarrow> (py_exc + bool) \<times> document \<times> gworld" where
  "document_commit_changes self w =
     (if requests self = [] then (Inr True, self, w)
      else
        (case start_service_error w of
           Some e \<Rightarrow> (Inl e, self, w)
         | None \<Rightarrow>
            (case docs_batch_update w (document_id self) (PDict [(''requests'', PList (requests self))]) of
               (Inl e, w1) \<Rightarrow> (Inl e, self, w1)
             | (Inr preload, w1) \<Rightarrow>
                 if \<not> py_truthy preload
                 then (Inr False, self,
                       log_to ERROR ''Could not commit changes to document %s due to API error.'' w1)
                 else (Inr True, self\<lparr>requests := []\<rparr>, w1))))"

subsection \<open>Spreadsheet.reload and Spreadsheet.commit\_changes\<close>

text \<open>
  Keys of a Python dictionary are compared with \<open>==\<close>, under which \<open>True\<close>, \<open>1\<close> and
  \<open>1.0\<close> are one key; lists and dictionaries are not hashable. Storing under a key
  that is present replaces the value and keeps the key's place.
\<close>

fun py_num :: "pyval \<Rightarrow> real option" where
  "py_num (PBool b) = Some (if b then 1 else 0)"
| "py_num (PInt i) = Some (of_int i)"
| "py_num (PFloat f) = Some f"
| "py_num _ = None"

definition py_key_eq :: "pyval \<Rightarrow> pyval \<Rightarrow> bool" where
  "py_key_eq a b =
     (case (py_num a, py_num b) of
        (Some x, Some y) \<Rightarrow> x = y
      | (None, None) \<Rightarrow> a = b
      | _ \<Rightarrow> False)"

fun hashable :: "pyval \<Rightarrow> bool" where
  "hashable (PList xs) = False"
| "hashable (PDict d) = False"
| "hashable _ = True"

fun dict_store :: "(pyval \<times> pyval) list \<Rightarrow> pyval \<Rightarrow> pyval \<Rightarrow> (pyval \<times> pyval) list" where
  "dict_store [] k v = [(k, v)]"
| "dict_store ((k', v') # d) k v =
     (if py_key_eq k' k then (k', v) # d else (k', v') # dict_store d k v)"

text \<open>\<open>for sheet in preload['sheets']: self.title_key[sheet['properties']['sheetId']] =
  sheet['properties']['title']\<close>; the right-hand side is evaluated first.\<close>

fun title_key_loop :: "pyval list \<Rightarrow> (pyval \<times> pyval) list \<Rightarrow> py_exc option \<times> (pyval \<times> pyval) list" where
  "title_key_loop [] tk = (None, tk)"
| "title_key_loop (sh # rest) tk =
     (case thn (getitem_str sh ''properties'') (\<lambda>p. getitem_str p ''title'') of
        Inl e \<Rightarrow> (Some e, tk)
      | Inr title \<Rightarrow>
         (case thn (getitem_str sh ''properties'') (\<lambda>p. getitem_str p ''sheetId'') of
            Inl e \<Rightarrow> (Some e, tk)
          | Inr sid \<Rightarrow>
              if hashable sid then title_key_loop rest (dict_store tk sid title)
              else (Some TypeError, tk)))"

definition spreadsheet_reload :: "spreadsheet \<Rightarrow> pyval \<Rightarrow> py_exc option \<times> spreadsheet" where
  "spreadsheet_reload self preload =
     (case getitem_str preload ''spreadsheetId'' of
        Inl e \<Rightarrow> (Some e, self)
      | Inr sid \<Rightarrow>
         (let s1 = self\<lparr>spreadsheet_id := sid, json := preload, requests := [], title_key := []\<rparr>
          in case thn (getitem_str preload ''sheets'') py_iter of
               Inl e \<Rightarrow> (Some e, s1)
             | Inr shs \<Rightarrow>
                (case title_key_loop shs [] of (err, tk) \<Rightarrow> (err, s1\<lparr>title_key := tk\<rparr>))))"

definition spreadsheet_commit_changes ::
  "spreadsheet \<Rightarrow> bool \<Rightarrow> gworld \<Rightarrow> (py_exc + bool) \<times> spreadsheet \<times> gworld" where
  "spreadsheet_commit_changes self update w =
     (if length (requests self) = 0 then (Inr True, self, w)
      else
        (let request_object = PDict [(''requests'', PList (requests self)),
                                     (''includeSpreadsheetInResponse'', PBool update)]
         in case start_service_error w of
              Some e \<Rightarrow> (Inl e, self, w)
            | None \<Rightarrow>
               (case sheets_batch_update w (spreadsheet_id self) request_object of
                  (Inl e, w1) \<Rightarrow> (Inl e, self, w1)
                | (Inr preload, w1) \<Rightarrow>
                    if \<not> py_truthy preload
                    then (Inr False, self,
                          log_to ERROR ''Could not commit changes to spreadsheet %s due to API error.'' w1)
                    else if update
                    then (case getitem_str preload ''updatedSpreadsheet'' of
                            Inl e \<Rightarrow> (Inl e, self, w1)
                          | Inr p \<Rightarrow>
                             (case spreadsheet_reload self p of
                                (Some e, s') \<Rightarrow> (Inl e, s', w1)
                              | (None, s') \<Rightarrow> (Inr True, s', w1)))
                    else (Inr True, self, w1))))"

subsection \<open>Sheet.reload and Sheet.commit\_changes\<close>

text \<open>The loop over \<open>rowData\<close>: a row without \<open>values\<close> becomes a row of empty cells as
  wide as the first row read so far (one cell when there is none), any other row
  the list of its \<open>values\<close>.\<close>

fun reload_rows :: "pyval list \<Rightarrow> pyval list list \<Rightarrow> py_exc option \<times> pyval list list" where
  "reload_rows [] ca = (None, ca)"
| "reload_rows (row_object # rows) ca =
     (case py_keys row_object of
        Inl e \<Rightarrow> (Some e, ca)
      | Inr ks \<Rightarrow>
          if ''values'' \<notin> set ks
          then reload_rows rows
                 (ca @ [if length ca > 0 then replicate (length (hd ca)) (PDict []) else [PDict []]])
          else (case thn (getitem_str row_object ''values'') py_iter of
                  Inl e \<Rightarrow> (Some e, ca)
                | Inr entries \<Rightarrow> reload_rows rows (ca @ [entries])))"

text \<open>\<open>self.json['sheets'][0]\<close>, then one more key and, for \<open>data\<close>, index 0.\<close>

definition first_sheet :: "pyval \<Rightarrow> py_exc + pyval" where
  "first_sheet j = thn (getitem_str j ''sheets'') (\<lambda>shs. getitem_int shs 0)"

definition first_sheet_property :: "pyval \<Rightarrow> string \<Rightarrow> py_exc + pyval" where
  "first_sheet_property j k =
     thn (first_sheet j) (\<lambda>sh. thn (getitem_str sh ''properties'') (\<lambda>p. getitem_str p k))"

definition first_sheet_data :: "pyval \<Rightarrow> py_exc + pyval" where
  "first_sheet_data j =
     thn (first_sheet j) (\<lambda>sh. thn (getitem_str sh ''data'') (\<lambda>d. getitem_int d 0))"

definition sheet_reload :: "sheet \<Rightarrow> pyval \<Rightarrow> py_exc option \<times> sheet" where
  "sheet_reload self preload =
     (case getitem_str preload ''spreadsheetId'' of
        Inl e \<Rightarrow> (Some e, self)
      | Inr sid \<Rightarrow>
         (let s1 = self\<lparr>spreadsheet_id := sid, json := preload\<rparr>
          in case first_sheet_property preload ''sheetId'' of
               Inl e \<Rightarrow> (Some e, s1)
             | Inr shid \<Rightarrow>
                (let s2 = s1\<lparr>sheet_id := shid\<rparr>
                 in case first_sheet_property preload ''title'' of
                      Inl e \<Rightarrow> (Some e, s2)
                    | Inr title \<Rightarrow>
                       (let s3 = s2\<lparr>sheet_name := title, requests := [], cell_array := []\<rparr>
                        in case thn (first_sheet_data preload) py_keys of
                             Inl e \<Rightarrow> (Some e, s3)
                           | Inr ks \<Rightarrow>
                               if ''rowData'' \<notin> set ks then (None, s3)
                               else
                                 (case thn (first_sheet_data preload)
                                         (\<lambda>d. thn (getitem_str d ''rowData'') py_iter) of
                                    Inl e \<Rightarrow> (Some e, s3)
                                  | Inr rows \<Rightarrow>
                                     (case reload_rows rows [] of
                                        (err, ca) \<Rightarrow> (err, s3\<lparr>cell_array := ca\<rparr>)))))))"

definition sheet_commit_changes ::
  "sheet \<Rightarrow> bool \<Rightarrow> gworld \<Rightarrow> (py_exc + bool) \<times> sheet \<times> gworld" where
  "sheet_commit_changes self update w =
     (if length (requests self) = 0 then (Inr True, self, w)
      else
        (let request_object = PDict [(''requests'', PList (requests self)),
                                     (''includeSpreadsheetInResponse'', PBool update),
                                     (''responseRanges'', PList [sheet_name self]),
                                     (''responseIncludeGridData'', PBool update)]
         in case start_service_error w of
              Some e \<Rightarrow> (Inl e, self, w)
            | None \<Rightarrow>
               (case sheets_batch_update w (spreadsheet_id self) request_object of
                  (Inl e, w1) \<Rightarrow> (Inl e, self, w1)
                | (Inr preload, w1) \<Rightarrow>
                    if \<not> py_truthy preload
                    then (case log_json (log_to ERROR ''Could not commit changes to %s due to API error.'' w1)
                                 (PList (requests self)) of
                            (Some e, w2) \<Rightarrow> (Inl e, self, w2)
                          | (None, w2) \<Rightarrow> (Inr False, self, w2))
                    else if update
                    then (case getitem_str preload ''updatedSpreadsheet'' of
                            Inl e \<Rightarrow> (Inl e, self, w1)
                          | Inr p \<Rightarrow>
                             (case sheet_reload self p of
                                (Some e, s') \<Rightarrow> (Inl e, s', w1)
                              | (None, s') \<Rightarrow> (Inr True, s', w1)))
                    else (Inr True, self, w1))))"

subsection \<open>Sheet.get\_value and Sheet.get\_formatted\_value\<close>

text \<open>The loop over \<open>preferred_type_order\<close>: the first of the keys that
  \<open>value.keys()\<close> holds selects the result.\<close>

fun preferred_value :: "string list \<Rightarrow> pyval \<Rightarrow> py_exc + pyval" where
  "preferred_value [] v = Inr PNone"
| "preferred_value (value_type # rest) v =
     (case py_keys v of
        Inl e \<Rightarrow> Inl e
      | Inr ks \<Rightarrow> if value_type \<in> set ks then getitem_str v value_type
                  else preferred_value rest v)"

text \<open>
  \<open>get_value\<close>: the \<open>try\<close> block covers the two subscripts and the two \<open>get\<close> calls,
  and only IndexError is caught there. The default argument
  \<open>cell_json.get('effectiveValue')\<close> is evaluated before the outer \<open>get\<close> is called.
\<close>

definition get_value :: "sheet \<Rightarrow> int \<Rightarrow> int \<Rightarrow> py_exc + pyval" where
  "get_value self row column =
     (case thn (thn (py_index (cell_array self) row) (\<lambda>r. py_index r column))
               (\<lambda>cell_json. thn (dict_get cell_json ''effectiveValue'' PNone)
                                 (\<lambda>dflt. dict_get cell_json ''userEnteredValue'' dflt)) of
        Inl e \<Rightarrow> if e = IndexError then Inr PNone else Inl e
      | Inr v \<Rightarrow>
          if v = PNone then Inr PNone
          else preferred_value [''numberValue'', ''stringValue'', ''boolValue'', ''formulaValue''] v)"

definition get_formatted_value :: "sheet \<Rightarrow> int \<Rightarrow> int \<Rightarrow> py_exc + pyval" where
  "get_formatted_value self row column =
     (case thn (thn (py_index (cell_array self) row) (\<lambda>r. py_index r column))
               (\<lambda>cell. py_contains cell ''formattedValue'') of
        Inl e \<Rightarrow> if e = IndexError then Inr PNone else Inl e
      | Inr present \<Rightarrow>
          if \<not> present then get_value self row column
          else thn (thn (py_index (cell_array self) row) (\<lambda>r. py_index r column))
                   (\<lambda>cell. getitem_str cell ''formattedValue''))"

text \<open>The cells the Sheets API sends: a cell is an object, and its
  \<open>userEnteredValue\<close> and \<open>effectiveValue\<close>, where present, are objects or null.\<close>

definition cell_data :: "pyval \<Rightarrow> bool" where
  "cell_data c =
     (case c of
        PDict d \<Rightarrow>
          list_all (\<lambda>k. case map_of d k of None \<Rightarrow> True | Some v \<Rightarrow> v = PNone \<or> is_dict v)
                   [''userEnteredValue'', ''effectiveValue'']
      | _ \<Rightarrow> False)"

definition grid_data :: "pyval list list \<Rightarrow> bool" where
  "grid_data ca = list_all (list_all cell_data) ca"

section \<open>tasks/web\_scrape.py: polling for a result\<close>

text \<open>
  The world of a polling fetch: the reading of \<open>time.time()\<close>; what the \<open>n\<close>-th
  \<open>api_client.get('results')\<close> returns (or raises) and how long it takes; by how much
  the \<open>n\<close>-th \<open>time.sleep\<close> oversleeps; the clock readings at which the polls so far
  began; the arguments of the sleeps so far; the log; and \<open>base64.b64decode\<close>.
\<close>

record poll_world =
  now :: real
  results :: "nat \<Rightarrow> py_exc + pyval"
  latency :: "nat \<Rightarrow> real"
  oversleep :: "nat \<Rightarrow> real"
  polled :: "real list"
  slept :: "real list"
  poll_log :: log
  b64decode :: "pyval \<Rightarrow> py_exc + pyval"

definition poll_get :: "poll_world \<Rightarrow> (py_exc + pyval) \<times> poll_world" where
  "poll_get w =
     (results w (length (polled w)),
      w\<lparr>now := now w + latency w (length (polled w)), polled := polled w @ [now w]\<rparr>)"

definition sleep :: "real \<Rightarrow> poll_world \<Rightarrow> poll_world" where
  "sleep secs w =
     w\<lparr>now := now w + secs + oversleep w (length (slept w)), slept := slept w @ [secs]\<rparr>"

definition poll_error :: "string \<Rightarrow> poll_world \<Rightarrow> poll_world" where
  "poll_error msg w = w\<lparr>poll_log := poll_log w @ [(ERROR, msg)]\<rparr>"

text \<open>
  The loop of \<open>get_management_report\<close>, which \<open>get_general_ledger_detail\<close>,
  \<open>get_general_ledger_summary\<close>, \<open>get_revenue_data\<close>, \<open>get_gst_rec\<close> and
  \<open>get_payable_invoice\<close> repeat with other log messages. Nothing in the loop bounds
  the number of rounds but the clock, so the function is partial: \<open>None\<close> stands for
  a run that never returns. A \<open>break\<close> and a false loop condition both lead to the
  "timed out" record and \<open>None\<close>.
\<close>

partial_function (option) report_loop ::
  "string \<Rightarrow> string \<Rightarrow> real \<Rightarrow> real \<Rightarrow> poll_world \<Rightarrow> ((py_exc + pyval) \<times> poll_world) option" where
  "report_loop failed_msg timeout_msg start_time timeout w =
     (if now w - start_time < timeout
      then (case poll_get w of
              (Inl e, w1) \<Rightarrow> Some (Inl e, w1)
            | (Inr res, w1) \<Rightarrow>
                if \<not> is_dict res then Some (Inr PNone, poll_error failed_msg w1)
                else if dict_get res ''status'' PNone = Inr (PStr ''pending'')
                then report_loop failed_msg timeout_msg start_time timeout (sleep 1 w1)
                else if py_contains res ''content'' = Inr True
                then Some (thn (getitem_str res ''content'') (b64decode w1), w1)
                else Some (Inr PNone, poll_error timeout_msg w1))
      else Some (Inr PNone, poll_error timeout_msg w))"

definition get_management_report :: "real \<Rightarrow> poll_world \<Rightarrow> ((py_exc + pyval) \<times> poll_world) option" where
  "get_management_report timeout w =
     report_loop ''Get management report failed due to API error.''
       ''Get management report timed out after %d seconds'' (now w) timeout w"

definition get_general_ledger_detail :: "real \<Rightarrow> poll_world \<Rightarrow> ((py_exc + pyval) \<times> poll_world) option" where
  "get_general_ledger_detail timeout w =
     report_loop ''Get general ledger detail failed due to API error.''
       ''Get general ledger detail timed out after %d seconds'' (now w) timeout w"

text \<open>\<open>get_uncoded_statement_lines\<close>: a list is the result; there is no \<open>content\<close>.\<close>

fun is_list :: "pyval \<Rightarrow> bool" where
  "is_list (PList xs) = True"
| "is_list _ = False"

partial_function (option) statement_lines_loop ::
  "real \<Rightarrow> real \<Rightarrow> poll_world \<Rightarrow> ((py_exc + pyval) \<times> poll_world) option" where
  "statement_lines_loop start_time timeout w =
     (if now w - start_time < timeout
      then (case poll_get w of
              (Inl e, w1) \<Rightarrow> Some (Inl e, w1)
            | (Inr res, w1) \<Rightarrow>
                if is_list res then Some (Inr res, w1)
                else if \<not> is_dict res
                then Some (Inr PNone,
                           poll_error ''Get uncoded statement lines failed due to API error.'' w1)
                else if dict_get res ''status'' PNone = Inr (PStr ''pending'')
                then statement_lines_loop start_time timeout (sleep 1 w1)
                else Some (Inr PNone,
                           poll_error ''Get uncoded statement lines timed out after %d seconds'' w1))
      else Some (Inr PNone,
                 poll_error ''Get uncoded statement lines timed out after %d seconds'' w))"

definition get_uncoded_statement_lines ::
  "real \<Rightarrow> poll_world \<Rightarrow> ((py_exc + pyval) \<times> poll_world) option" where
  "get_uncoded_statement_lines timeout w = statement_lines_loop (now w) timeout w"

text \<open>A status endpoint that never leaves \<open>pending\<close>, on a clock that does not run
  backwards: every answer is an object whose \<open>status\<close> is \<open>'pending'\<close>, no call takes
  negative time and no sleep is shorter than asked.\<close>

definition pending :: "py_exc + pyval \<Rightarrow> bool" where
  "pending r = (case r of Inr (PDict d) \<Rightarrow> map_of d ''status'' = Some (PStr ''pending'') | _ \<Rightarrow> False)"

definition always_pending :: "poll_world \<Rightarrow> bool" where
  "always_pending w =
     (\<forall>n. pending (results w n) \<and> 0 \<le> latency w n \<and> 0 \<le> oversleep w n)"

section \<open>tasks/xero.py: journals\<close>

subsection \<open>Seconds out of a date string\<close>

text \<open>\<open>v[6:-k]\<close> for \<open>k > 0\<close>: what lies between the first six and the last \<open>k\<close> items,
  empty when there are too few. The items of a \<open>str\<close> are its characters, those of
  \<open>bytes\<close> its bytes. A number is not subscriptable, and a dictionary has no slice
  among its keys.\<close>

definition slice_6 :: "nat \<Rightarrow> 'a list \<Rightarrow> 'a list" where
  "slice_6 k s = drop 6 (take (length s - k) s)"

fun getitem_slice_6 :: "pyval \<Rightarrow> nat \<Rightarrow> py_exc + pyval" where
  "getitem_slice_6 (PStr s) k = Inr (PStr (concat (slice_6 k (utf8_chars s))))"
| "getitem_slice_6 (PBytes s) k = Inr (PBytes (slice_6 k s))"
| "getitem_slice_6 (PList xs) k = Inr (PList (slice_6 k xs))"
| "getitem_slice_6 (PDict d) k = Inl KeyError"
| "getitem_slice_6 _ k = Inl TypeError"

text \<open>
  \<open>date_to_seconds\<close>: \<open>None\<close> for \<open>None\<close>; otherwise the slice is taken and handed to
  \<open>int\<close>, and the milliseconds are floor-divided by 1000. The built-in \<open>int\<close> is the
  parameter \<open>int_of\<close>: which texts it reads as a number, and to which, is the
  interpreter's matter (its reading of digits and spaces follows the Unicode
  database) and nothing below depends on it; what is used is that it returns an
  integer or raises.
\<close>

definition date_to_seconds ::
  "(pyval \<Rightarrow> py_exc + int) \<Rightarrow> pyval \<Rightarrow> bool \<Rightarrow> py_exc + pyval" where
  "date_to_seconds int_of xero_datetime timezone_present =
     (if xero_datetime = PNone then Inr PNone
      else thn (thn (getitem_slice_6 xero_datetime (if timezone_present then 7 else 2)) int_of)
             (\<lambda>epoch_time_ms. Inr (PInt (epoch_time_ms div 1000))))"

subsection \<open>simplify\_journals\<close>

text \<open>The dictionary built for one journal line. Its values are evaluated in the
  order of the source: the two dates can raise, and \<open>line.get\<close> raises AttributeError
  when the line is no object.\<close>

definition new_line ::
  "(pyval \<Rightarrow> py_exc + int) \<Rightarrow> pyval \<Rightarrow> pyval \<Rightarrow> string \<Rightarrow> py_exc + pyval" where
  "new_line int_of journal line extracted =
     thn (thn (dict_get journal ''JournalDate'' (PStr [])) (\<lambda>d. date_to_seconds int_of d True)) (\<lambda>timestamp.
     thn (dict_get journal ''JournalID'' PNone) (\<lambda>journal_id.
     thn (dict_get journal ''JournalNumber'' PNone) (\<lambda>journal_number.
     thn (thn (dict_get journal ''CreatedDateUTC'' (PStr [])) (\<lambda>d. date_to_seconds int_of d True)) (\<lambda>created_date_utc.
     thn (dict_get journal ''Reference'' PNone) (\<lambda>journal_reference.
     thn (dict_get journal ''SourceID'' PNone) (\<lambda>source_id.
     thn (dict_get journal ''SourceType'' PNone) (\<lambda>journal_type.
     thn (dict_get line ''JournalLineID'' PNone) (\<lambda>journal_line_id.
     thn (dict_get line ''AccountID'' PNone) (\<lambda>account_id.
     thn (dict_get line ''AccountCode'' PNone) (\<lambda>account_code.
     thn (dict_get line ''AccountType'' PNone) (\<lambda>account_type.
     thn (dict_get line ''AccountName'' PNone) (\<lambda>account_name.
     thn (dict_get line ''Description'' PNone) (\<lambda>description.
     thn (dict_get line ''NetAmount'' PNone) (\<lambda>net_amount.
     thn (dict_get line ''GrossAmount'' PNone) (\<lambda>gross_amount.
     thn (dict_get line ''TaxAmount'' PNone) (\<lambda>tax_amount.
     thn (dict_get line ''TaxName'' PNone) (\<lambda>tax_name.
     thn (dict_get line ''TrackingCategories'' PNone) (\<lambda>tracking.
       Inr (PDict [
         (''timestamp'', timestamp),
         (''extracted'', PStr extracted),
         (''journal_id'', journal_id),
         (''journal_number'', journal_number),
         (''created_date_utc'', created_date_utc),
         (''journal_reference'', journal_reference),
         (''source_id'', source_id),
         (''journal_type'', journal_type),
         (''journal_line_id'', journal_line_id),
         (''account_id'', account_id),
         (''account_code'', account_code),
         (''account_type'', account_type),
         (''account_name'', account_name),
         (''description'', description),
         (''net_amount'', net_amount),
         (''gross_amount'', gross_amount),
         (''tax_amount'', tax_amount),
         (''tax_name'', tax_name),
         (''tracking'', tracking)])))))))))))))))))))"

text \<open>The inner loop over the lines of one journal and the outer loop over the
  journals; a journal that is falsy is skipped.\<close>

fun lines_loop ::
  "(pyval \<Rightarrow> py_exc + int) \<Rightarrow> pyval \<Rightarrow> string \<Rightarrow> pyval list \<Rightarrow> py_exc + pyval list" where
  "lines_loop int_of journal extracted [] = Inr []"
| "lines_loop int_of journal extracted (line # rest) =
     (case new_line int_of journal line extracted of
        Inl e \<Rightarrow> Inl e
      | Inr l \<Rightarrow>
         (case lines_loop int_of journal extracted rest of
            Inl e \<Rightarrow> Inl e
          | Inr ls \<Rightarrow> Inr (l # ls)))"

fun journals_loop ::
  "(pyval \<Rightarrow> py_exc + int) \<Rightarrow> pyval list \<Rightarrow> string \<Rightarrow> py_exc + pyval list" where
  "journals_loop int_of [] extracted = Inr []"
| "journals_loop int_of (journal # rest) extracted =
     (if \<not> py_truthy journal then journals_loop int_of rest extracted
      else
        (case thn (thn (dict_get journal ''JournalLines'' (PList [])) py_iter)
                  (lines_loop int_of journal extracted) of
           Inl e \<Rightarrow> Inl e
         | Inr ls \<Rightarrow>
            (case journals_loop int_of rest extracted of
               Inl e \<Rightarrow> Inl e
             | Inr others \<Rightarrow> Inr (ls @ others))))"

definition simplify_journals ::
  "(pyval \<Rightarrow> py_exc + int) \<Rightarrow> pyval \<Rightarrow> string \<Rightarrow> py_exc + pyval list" where
  "simplify_journals int_of journals_raw extracted =
     thn (thn (getitem_str journals_raw ''Journals'') py_iter)
       (\<lambda>js. journals_loop int_of js extracted)"

subsection \<open>get\_journals\<close>

text \<open>
  The world of the fetch: what the \<open>n\<close>-th \<open>main_client.get\<close> on the journals endpoint
  returns (or raises), the text \<open>datetime.now()\<close> formats to in the \<open>n\<close>-th round, the
  interpreter's \<open>int\<close>, the \<open>params\<close> of the requests made so far, and the log.
  Endpoint and headers are the same on every request.
\<close>

record xero_world =
  pages :: "nat \<Rightarrow> py_exc + pyval"
  clock_text :: "nat \<Rightarrow> string"
  builtin_int :: "pyval \<Rightarrow> py_exc + int"
  requested :: "pyval list"
  xero_log :: log

definition journals_get :: "xero_world \<Rightarrow> pyval \<Rightarrow> (py_exc + pyval) \<times> xero_world" where
  "journals_get w params = (pages w (length (requested w)), w\<lparr>requested := requested w @ [params]\<rparr>)"

definition xero_error :: "string \<Rightarrow> xero_world \<Rightarrow> xero_world" where
  "xero_error msg w = w\<lparr>xero_log := xero_log w @ [(ERROR, msg)]\<rparr>"

text \<open>The \<open>while True\<close> loop. It ends only on a failed request, an exception or a page
  without lines, so the function is partial: \<open>None\<close> is a run that never returns.\<close>

partial_function (option) journals_pages ::
  "pyval list \<Rightarrow> pyval \<Rightarrow> xero_world \<Rightarrow> ((py_exc + pyval) \<times> xero_world) option" where
  "journals_pages journal_lines params w =
     (case journals_get w params of
        (Inl e, w1) \<Rightarrow> Some (Inl e, w1)
      | (Inr journals_raw, w1) \<Rightarrow>
          if \<not> py_truthy journals_raw
          then Some (Inr PNone, xero_error ''Get journals API request failed for %s.'' w1)
          else (case simplify_journals (builtin_int w) journals_raw
                       (clock_text w (length (requested w))) of
                  Inl e \<Rightarrow> Some (Inl e, w1)
                | Inr new_lines \<Rightarrow>
                    if length new_lines = 0 then Some (Inr (PList journal_lines), w1)
                    else (case getitem_str (last new_lines) ''journal_number'' of
                            Inl e \<Rightarrow> Some (Inl e, w1)
                          | Inr n \<Rightarrow>
                              journals_pages (journal_lines @ new_lines) (PDict [(''offset'', n)]) w1)))"

text \<open>\<open>get_journals\<close>: the client looked up by id (\<open>None\<close> when it is not found) comes
  with what \<open>get_tokens\<close> returns for it, the tenant id and the access token.\<close>

definition get_journals ::
  "(string option \<times> string option) option \<Rightarrow> xero_world \<Rightarrow> ((py_exc + pyval) \<times> xero_world) option" where
  "get_journals client w =
     (case client of
        None \<Rightarrow> Some (Inr PNone,
                 xero_error ''Could not get journals for %s as the client was not found'' w)
      | Some (tenant_id, access_token) \<Rightarrow>
          if tenant_id = None
          then Some (Inr PNone,
                 xero_error ''Could not get journals for %s as the client did not have a tenant ID.'' w)
          else if access_token = None
          then Some (Inr PNone,
                 xero_error ''Could not get journals for %s as the client did not have an access token.'' w)
          else journals_pages [] PNone w)"

text \<open>The normalized lines of the \<open>i\<close>-th page, and the offset the request after it
  carries.\<close>

definition page_lines :: "xero_world \<Rightarrow> nat \<Rightarrow> py_exc + pyval list" where
  "page_lines w i = thn (pages w i) (\<lambda>p. simplify_journals (builtin_int w) p (clock_text w i))"

definition normalized :: "xero_world \<Rightarrow> nat \<Rightarrow> pyval list" where
  "normalized w i = (case page_lines w i of Inr ls \<Rightarrow> ls | Inl e \<Rightarrow> [])"

definition offset_after :: "xero_world \<Rightarrow> nat \<Rightarrow> pyval" where
  "offset_after w i =
     PDict [(''offset'', case getitem_str (last (normalized w i)) ''journal_number'' of
                           Inr n \<Rightarrow> n | Inl e \<Rightarrow> PNone)]"

text \<open>The first \<open>k\<close> pages yield lines and page \<open>k\<close> yields none.\<close>

definition pages_until_empty :: "xero_world \<Rightarrow> nat \<Rightarrow> bool" where
  "pages_until_empty w k =
     ((\<forall>i<k. \<exists>ls. page_lines w i = Inr ls \<and> ls \<noteq> []) \<and> page_lines w k = Inr [])"

section \<open>models/xero\_client.py: stored tokens\<close>

text \<open>
  \<open>cryptography.fernet.Fernet\<close> is a library outside the repository and is a
  parameter here: \<open>Fernet(key)\<close> raises ValueError unless the key is well-formed,
  \<open>encrypt\<close> draws fresh randomness and the time for each token, and \<open>decrypt\<close>
  raises InvalidToken (\<open>None\<close> here) on a token it does not accept. Its contract is
  that a token made under a key decrypts under that key to the plaintext, and that
  a token is never the empty bytes object.
\<close>

record fernet =
  valid_key :: "char list \<Rightarrow> bool"
  encrypt :: "char list \<Rightarrow> char list \<Rightarrow> char list \<Rightarrow> char list"
  decrypt :: "char list \<Rightarrow> char list \<Rightarrow> char list option"

definition fernet_contract :: "fernet \<Rightarrow> bool" where
  "fernet_contract F =
     (\<forall>key fresh plain. valid_key F key \<longrightarrow>
        decrypt F key (encrypt F key fresh plain) = Some plain \<and> encrypt F key fresh plain \<noteq> [])"

text \<open>The columns of the model that the token methods touch. The expiry is a
  timestamp.\<close>

record xero_client =
  tenant_id :: "string option"
  access_token :: "char list option"
  refresh_token :: "char list option"
  access_token_expiry :: "int option"

text \<open>\<open>db.session.commit()\<close> succeeds, or raises SQLAlchemyError; the handler logs
  and rolls the session back, after which the object shows the row the session
  reloads.\<close>

datatype commit_outcome = Committed | Rolled_back xero_client

text \<open>\<open>Fernet(current_app.config['DB_ENCRYPTION_KEY'])\<close>: KeyError when the
  configuration has no such entry.\<close>

definition make_fernet :: "fernet \<Rightarrow> char list option \<Rightarrow> py_exc + char list" where
  "make_fernet F config_key =
     (case config_key of
        None \<Rightarrow> Inl KeyError
      | Some key \<Rightarrow> if valid_key F key then Inr key else Inl ValueError)"

text \<open>
  \<open>set_tokens\<close>. The arguments \<open>access_token\<close>, \<open>refresh_token\<close> and \<open>tenant_id\<close> of the
  source are \<open>access\<close>, \<open>refresh\<close> and \<open>tenant\<close> here, the columns keeping their names.
  A string being carried as its UTF-8 encoding, \<open>bytes(s, 'utf-8')\<close> changes
  nothing of the carrier. \<open>fresh1\<close> and \<open>fresh2\<close> are what the two \<open>encrypt\<close> calls
  draw.
\<close>

definition set_tokens ::
  "fernet \<Rightarrow> char list option \<Rightarrow> char list \<Rightarrow> char list \<Rightarrow> commit_outcome \<Rightarrow> xero_client
     \<Rightarrow> string \<Rightarrow> string \<Rightarrow> int \<Rightarrow> string option \<Rightarrow> py_exc option \<times> xero_client \<times> log" where
  "set_tokens F config_key fresh1 fresh2 outcome self access refresh expiry tenant =
     (case make_fernet F config_key of
        Inl e \<Rightarrow> (Some e, self, [])
      | Inr key \<Rightarrow>
         (let s1 = self\<lparr>access_token := Some (encrypt F key fresh1 access),
                        refresh_token := Some (encrypt F key fresh2 refresh),
                        access_token_expiry := Some expiry\<rparr>;
              s2 = (case tenant of
                      None \<Rightarrow> s1
                    | Some t \<Rightarrow> if t \<noteq> [] then s1\<lparr>tenant_id := Some t\<rparr> else s1)
          in case outcome of
               Committed \<Rightarrow> (None, s2, [])
             | Rolled_back row \<Rightarrow>
                 (None, row, [(ERROR, ''Updating access token for XeroClient %s failed: %s'')])))"

text \<open>The two accessors: \<open>None\<close> for a column that is \<open>None\<close> or empty; otherwise the
  column is decrypted and the plaintext decoded as UTF-8.\<close>

definition read_token :: "fernet \<Rightarrow> char list option \<Rightarrow> char list option \<Rightarrow> py_exc + string option" where
  "read_token F config_key column =
     (case column of
        None \<Rightarrow> Inr None
      | Some token \<Rightarrow>
          if token = [] then Inr None
          else thn (make_fernet F config_key)
                 (\<lambda>key. case decrypt F key token of
                           None \<Rightarrow> Inl InvalidToken
                         | Some plain \<Rightarrow> thn (decode_utf8 plain) (\<lambda>text. Inr (Some text))))"

definition get_access_token :: "fernet \<Rightarrow> char list option \<Rightarrow> xero_client \<Rightarrow> py_exc + string option" where
  "get_access_token F config_key self = read_token F config_key (access_token self)"

definition get_xero_refresh_token :: "fernet \<Rightarrow> char list option \<Rightarrow> xero_client \<Rightarrow> py_exc + string option" where
  "get_xero_refresh_token F config_key self = read_token F config_key (refresh_token self)"

section \<open>Properties\<close>

subsection \<open>URL preparation\<close>

lemma rstrip_slash_snoc: "rstrip_slash (b @ ''/'') = rstrip_slash b"
  by (simp add: rstrip_slash_def)

lemma rstrip_slash_last: "rstrip_slash b \<noteq> [] \<Longrightarrow> last (rstrip_slash b) \<noteq> CHR ''/''"
proof -
  assume ne: "rstrip_slash b \<noteq> []"
  let ?d = "dropWhile (\<lambda>c. c = CHR ''/'') (rev b)"
  from ne have d: "?d \<noteq> []" by (simp add: rstrip_slash_def)
  then have "hd ?d \<noteq> CHR ''/''" using hd_dropWhile [of "\<lambda>c. c = CHR ''/''" "rev b"] by simp
  with d show ?thesis by (simp add: rstrip_slash_def last_rev)
qed

lemma lstrip_slash_hd: "lstrip_slash e \<noteq> [] \<Longrightarrow> hd (lstrip_slash e) \<noteq> CHR ''/''"
  unfolding lstrip_slash_def using hd_dropWhile [of "\<lambda>c. c = CHR ''/''" e] by simp

text \<open>
  C9. A leading slash on the endpoint and a trailing slash on the base URL make no
  difference to the prepared URL: \<open>prepare_url(base, "/x")\<close> and
  \<open>prepare_url(base, "x")\<close> are the same string, and a client built from
  \<open>base + "/"\<close> prepares the same URLs as one built from \<open>base\<close>. Whenever the
  stored base URL is not empty, the result is the stored base, one slash, and the
  endpoint without its leading slashes, where the stored base does not end with a
  slash and the stripped endpoint does not begin with one: exactly one separator.
\<close>

theorem prepare_url_single_separator:
  "prepare_url (init_base_url (Some base)) (CHR ''/'' # x) = prepare_url (init_base_url (Some base)) x
   \<and> prepare_url (init_base_url (Some (base @ ''/''))) e = prepare_url (init_base_url (Some base)) e
   \<and> (rstrip_slash base \<noteq> [] \<longrightarrow>
        prepare_url (init_base_url (Some base)) e = rstrip_slash base @ ''/'' @ lstrip_slash e
        \<and> last (rstrip_slash base) \<noteq> CHR ''/''
        \<and> (lstrip_slash e \<noteq> [] \<longrightarrow> hd (lstrip_slash e) \<noteq> CHR ''/''))"
proof (intro conjI impI)
  show "prepare_url (init_base_url (Some base)) (CHR ''/'' # x) = prepare_url (init_base_url (Some base)) x"
    by (simp add: prepare_url_def init_base_url_def lstrip_slash_def)
  show "prepare_url (init_base_url (Some (base @ ''/''))) e = prepare_url (init_base_url (Some base)) e"
    by (simp add: prepare_url_def init_base_url_def rstrip_slash_snoc)
next
  assume ne: "rstrip_slash base \<noteq> []"
  then show "prepare_url (init_base_url (Some base)) e = rstrip_slash base @ ''/'' @ lstrip_slash e"
    by (simp add: prepare_url_def init_base_url_def)
  from ne show "last (rstrip_slash base) \<noteq> CHR ''/''" by (rule rstrip_slash_last)
next
  assume "lstrip_slash e \<noteq> []"
  then show "hd (lstrip_slash e) \<noteq> CHR ''/''" by (rule lstrip_slash_hd)
qed

theorem prepare_url_single_separator_witness:
  "prepare_url (init_base_url (Some ''http://a.b/'')) ''/x'' = ''http://a.b/x''
   \<and> prepare_url (init_base_url (Some ''http://a.b/'')) ''x'' = ''http://a.b/x''
   \<and> prepare_url (init_base_url (Some ''http://a.b'')) ''//x'' = ''http://a.b/x''
   \<and> rstrip_slash ''http://a.b/'' \<noteq> []
   \<and> last (rstrip_slash ''http://a.b/'') \<noteq> CHR ''/''
   \<and> lstrip_slash ''//x'' \<noteq> []
   \<and> hd (lstrip_slash ''//x'') \<noteq> CHR ''/''"
  using prepare_url_single_separator [of "''http://a.b/''" "''x''" "''//x''"]
  by (simp add: prepare_url_def init_base_url_def rstrip_slash_def lstrip_slash_def)

subsection \<open>Cell value classification\<close>

text \<open>
  C4. \<open>value_to_object\<close> is a function of its argument alone, defined on every Python
  value: a boolean gives a \<open>boolValue\<close> cell, an integer or a float a \<open>numberValue\<close>
  cell, a string whose first character is \<open>=\<close> a \<open>formulaValue\<close> cell, any other
  non-empty string a \<open>stringValue\<close> cell, and the empty string gives \<open>None\<close>.
\<close>

theorem value_to_object_classifies:
  "value_to_object (PBool b) = PDict [(''boolValue'', PBool b)]
   \<and> value_to_object (PInt i) = PDict [(''numberValue'', PInt i)]
   \<and> value_to_object (PFloat f) = PDict [(''numberValue'', PFloat f)]
   \<and> value_to_object (PStr (CHR ''='' # s)) = PDict [(''formulaValue'', PStr (CHR ''='' # s))]
   \<and> (c \<noteq> CHR ''='' \<longrightarrow> value_to_object (PStr (c # s)) = PDict [(''stringValue'', PStr (c # s))])
   \<and> value_to_object (PStr []) = PNone"
  by simp

theorem value_to_object_classifies_witness:
  "value_to_object (PBool True) = PDict [(''boolValue'', PBool True)]
   \<and> value_to_object (PInt 7) = PDict [(''numberValue'', PInt 7)]
   \<and> value_to_object (PFloat 2.5) = PDict [(''numberValue'', PFloat 2.5)]
   \<and> value_to_object (PStr ''=A1+1'') = PDict [(''formulaValue'', PStr ''=A1+1'')]
   \<and> CHR ''t'' \<noteq> CHR ''=''
   \<and> value_to_object (PStr ''total'') = PDict [(''stringValue'', PStr ''total'')]
   \<and> value_to_object (PStr []) = PNone"
  using value_to_object_classifies [of True 7 "2.5" "''A1+1''" "CHR ''t''"]
  by simp

subsection \<open>Committing queued changes\<close>

text \<open>The retry loop changes nothing of the world but the executed calls and the log.\<close>

lemma execute_keeps:
  "execute w ident body = (a, w') \<Longrightarrow>
     log_json_error w' = log_json_error w \<and> start_service_error w' = start_service_error w
     \<and> responses w' = responses w \<and> files w' = files w"
  by (auto simp: execute_def)

lemma batch_update_rounds_keeps:
  "batch_update_rounds n i msg w ident body = (r, w') \<Longrightarrow>
     log_json_error w' = log_json_error w \<and> start_service_error w' = start_service_error w
     \<and> responses w' = responses w \<and> files w' = files w"
proof (induction n arbitrary: i w r w')
  case 0
  then show ?case by simp
next
  case (Suc n)
  obtain a w1 where ex: "execute w ident body = (a, w1)" by (cases "execute w ident body")
  note k = execute_keeps [OF ex]
  show ?case
  proof (cases a)
    case (Returned x)
    with Suc.prems ex k show ?thesis by auto
  next
    case (HttpError st)
    with Suc.prems ex k Suc.IH [of "i + 1" w1 r w'] show ?thesis
      by (auto simp: log_to_def split: if_splits)
  next
    case TimeoutError
    with Suc.prems ex k Suc.IH [of "i + 1" w1 r w'] show ?thesis
      by (auto simp: log_to_def split: if_splits)
  next
    case (Raised e)
    with Suc.prems ex k show ?thesis by auto
  qed
qed

text \<open>A reload that returns has emptied the queue, and so has every commit of a
  \<open>Document\<close> that returned \<open>True\<close> and every commit with \<open>update=True\<close> that did.\<close>

lemma sheet_reload_clears: "sheet_reload self p = (None, s') \<Longrightarrow> requests s' = []"
  unfolding sheet_reload_def Let_def
  by (fastforce split: sum.splits prod.splits if_splits)

lemma spreadsheet_reload_clears: "spreadsheet_reload self p = (None, s') \<Longrightarrow> requests s' = []"
  unfolding spreadsheet_reload_def Let_def
  by (fastforce split: sum.splits prod.splits if_splits)

lemma document_commit_success_clears:
  "document_commit_changes d w = (Inr True, d', w') \<Longrightarrow> requests d' = []"
  unfolding document_commit_changes_def
  by (fastforce split: if_splits option.splits prod.splits sum.splits)

lemma sheet_commit_update_clears:
  "sheet_commit_changes sh True w = (Inr True, sh', w') \<Longrightarrow> requests sh' = []"
  unfolding sheet_commit_changes_def Let_def log_json_def
  by (fastforce dest: sheet_reload_clears split: if_splits option.splits prod.splits sum.splits)

lemma spreadsheet_commit_update_clears:
  "spreadsheet_commit_changes ss True w = (Inr True, ss', w') \<Longrightarrow> requests ss' = []"
  unfolding spreadsheet_commit_changes_def Let_def
  by (fastforce dest: spreadsheet_reload_clears split: if_splits option.splits prod.splits sum.splits)

text \<open>
  C7. A commit on an empty queue returns \<open>True\<close> and leaves the proxy and the whole
  world as they were; in particular no call is executed on the service. This holds
  for \<open>Document\<close>, \<open>Spreadsheet\<close> and \<open>Sheet\<close>, for either value of \<open>update\<close>.
\<close>

theorem commit_changes_empty_queue:
  "(requests d = [] \<longrightarrow> document_commit_changes d w = (Inr True, d, w))
   \<and> (requests ss = [] \<longrightarrow> spreadsheet_commit_changes ss update w = (Inr True, ss, w))
   \<and> (requests sh = [] \<longrightarrow> sheet_commit_changes sh update w = (Inr True, sh, w))"
  by (simp add: document_commit_changes_def spreadsheet_commit_changes_def sheet_commit_changes_def)

theorem commit_changes_empty_queue_witness:
  "requests \<lparr>json = PNone, requests = [], document_id = PStr ''d1''\<rparr> = []
   \<and> requests \<lparr>json = PNone, requests = [], spreadsheet_id = PStr ''s1'', title_key = []\<rparr> = []
   \<and> requests \<lparr>json = PNone, requests = [], spreadsheet_id = PStr ''s1'', sheet_id = PInt 0,
         sheet_name = PStr ''Tab'', width = 0, cell_array = []\<rparr> = []
   \<and> fst (document_commit_changes \<lparr>json = PNone, requests = [], document_id = PStr ''d1''\<rparr>
        \<lparr>start_service_error = None, responses = (\<lambda>n. TimeoutError), executed = [],
         log_json_error = None, files = [], logged = []\<rparr>) = Inr True
   \<and> executed (snd (snd (spreadsheet_commit_changes
         \<lparr>json = PNone, requests = [], spreadsheet_id = PStr ''s1'', title_key = []\<rparr> True
        \<lparr>start_service_error = None, responses = (\<lambda>n. TimeoutError), executed = [],
         log_json_error = None, files = [], logged = []\<rparr>))) = []
   \<and> fst (sheet_commit_changes
         \<lparr>json = PNone, requests = [], spreadsheet_id = PStr ''s1'', sheet_id = PInt 0,
          sheet_name = PStr ''Tab'', width = 0, cell_array = []\<rparr> False
        \<lparr>start_service_error = None, responses = (\<lambda>n. TimeoutError), executed = [],
         log_json_error = None, files = [], logged = []\<rparr>) = Inr True"
  using commit_changes_empty_queue
    [where d = "\<lparr>json = PNone, requests = [], document_id = PStr ''d1''\<rparr>"
       and ss = "\<lparr>json = PNone, requests = [], spreadsheet_id = PStr ''s1'', title_key = []\<rparr>"
       and sh = "\<lparr>json = PNone, requests = [], spreadsheet_id = PStr ''s1'', sheet_id = PInt 0,
                 sheet_name = PStr ''Tab'', width = 0, cell_array = []\<rparr>"
       and w = "\<lparr>start_service_error = None, responses = (\<lambda>n. TimeoutError), executed = [],
                 log_json_error = None, files = [], logged = []\<rparr>"]
  by simp

text \<open>
  With a non-empty queue, when the batch update gives no result (\<open>None\<close>, or any
  value that \<open>not preload\<close> accepts), \<open>Document.commit_changes\<close> and
  \<open>Spreadsheet.commit_changes\<close> return \<open>False\<close> and the proxy, its queue included, is
  what it was before the call. \<open>Sheet.commit_changes\<close> writes the queue to a file
  under \<open>logs/failed_sheets_calls\<close> before it returns, and does the same where that
  file can be written.
\<close>

lemma commit_changes_failure_keeps_queue:
  "(requests d \<noteq> [] \<and> start_service_error w = None
      \<and> docs_batch_update w (document_id d) (PDict [(''requests'', PList (requests d))]) = (Inr preload, w1)
      \<and> \<not> py_truthy preload
     \<longrightarrow> fst (document_commit_changes d w) = Inr False
         \<and> fst (snd (document_commit_changes d w)) = d)
   \<and> (requests ss \<noteq> [] \<and> start_service_error w = None
      \<and> sheets_batch_update w (spreadsheet_id ss)
            (PDict [(''requests'', PList (requests ss)),
                    (''includeSpreadsheetInResponse'', PBool update)]) = (Inr preload, w1)
      \<and> \<not> py_truthy preload
     \<longrightarrow> fst (spreadsheet_commit_changes ss update w) = Inr False
         \<and> fst (snd (spreadsheet_commit_changes ss update w)) = ss)
   \<and> (requests sh \<noteq> [] \<and> start_service_error w = None \<and> log_json_error w = None
      \<and> sheets_batch_update w (spreadsheet_id sh)
            (PDict [(''requests'', PList (requests sh)),
                    (''includeSpreadsheetInResponse'', PBool update),
                    (''responseRanges'', PList [sheet_name sh]),
                    (''responseIncludeGridData'', PBool update)]) = (Inr preload, w1)
      \<and> \<not> py_truthy preload
     \<longrightarrow> fst (sheet_commit_changes sh update w) = Inr False
         \<and> fst (snd (sheet_commit_changes sh update w)) = sh)"
proof (intro conjI impI)
  assume "requests d \<noteq> [] \<and> start_service_error w = None
      \<and> docs_batch_update w (document_id d) (PDict [(''requests'', PList (requests d))]) = (Inr preload, w1)
      \<and> \<not> py_truthy preload"
  then show "fst (document_commit_changes d w) = Inr False"
    and "fst (snd (document_commit_changes d w)) = d"
    by (simp_all add: document_commit_changes_def)
next
  assume "requests ss \<noteq> [] \<and> start_service_error w = None
      \<and> sheets_batch_update w (spreadsheet_id ss)
            (PDict [(''requests'', PList (requests ss)),
                    (''includeSpreadsheetInResponse'', PBool update)]) = (Inr preload, w1)
      \<and> \<not> py_truthy preload"
  then show "fst (spreadsheet_commit_changes ss update w) = Inr False"
    and "fst (snd (spreadsheet_commit_changes ss update w)) = ss"
    by (simp_all add: spreadsheet_commit_changes_def)
next
  assume a: "requests sh \<noteq> [] \<and> start_service_error w = None \<and> log_json_error w = None
      \<and> sheets_batch_update w (spreadsheet_id sh)
            (PDict [(''requests'', PList (requests sh)),
                    (''includeSpreadsheetInResponse'', PBool update),
                    (''responseRanges'', PList [sheet_name sh]),
                    (''responseIncludeGridData'', PBool update)]) = (Inr preload, w1)
      \<and> \<not> py_truthy preload"
  then have "log_json_error w1 = None"
    unfolding sheets_batch_update_def by (auto dest: batch_update_rounds_keeps)
  with a show "fst (sheet_commit_changes sh update w) = Inr False"
    and "fst (snd (sheet_commit_changes sh update w)) = sh"
    by (simp_all add: sheet_commit_changes_def log_json_def log_to_def)
qed

text \<open>
  C3. A \<open>Sheet\<close> with one queued request, committed against a service whose batch
  update fails (every attempt answers 404), in a process whose working directory
  has no folder \<open>logs/failed_sheets_calls\<close>: \<open>open\<close> in \<open>log_json\<close> raises
  FileNotFoundError, an OSError, and that exception leaves \<open>commit_changes\<close> where
  \<open>False\<close> was to be returned. The queue is what it was. On the same failure a
  \<open>Document\<close> and a \<open>Spreadsheet\<close>, which write no file, return \<open>False\<close>.
\<close>

theorem sheet_commit_changes_failure_raises:
  "fst (sheet_commit_changes
        \<lparr>json = PNone, requests = [PDict [(''deleteDimension'', PDict [])]],
         spreadsheet_id = PStr ''s1'', sheet_id = PInt 0,
         sheet_name = PStr ''Tab'', width = 0, cell_array = []\<rparr> False
        \<lparr>start_service_error = None, responses = (\<lambda>n. HttpError 404), executed = [],
         log_json_error = Some OSError, files = [], logged = []\<rparr>) = Inl OSError
   \<and> requests (fst (snd (sheet_commit_changes
        \<lparr>json = PNone, requests = [PDict [(''deleteDimension'', PDict [])]],
         spreadsheet_id = PStr ''s1'', sheet_id = PInt 0,
         sheet_name = PStr ''Tab'', width = 0, cell_array = []\<rparr> False
        \<lparr>start_service_error = None, responses = (\<lambda>n. HttpError 404), executed = [],
         log_json_error = Some OSError, files = [], logged = []\<rparr>)))
       = [PDict [(''deleteDimension'', PDict [])]]
   \<and> fst (document_commit_changes
        \<lparr>json = PNone, requests = [PDict [(''replaceAllText'', PDict [])]],
         document_id = PStr ''d1''\<rparr>
        \<lparr>start_service_error = None, responses = (\<lambda>n. HttpError 404), executed = [],
         log_json_error = Some OSError, files = [], logged = []\<rparr>) = Inr False
   \<and> fst (spreadsheet_commit_changes
        \<lparr>json = PNone, requests = [PDict [(''deleteSheet'', PDict [(''sheetId'', PInt 0)])]],
         spreadsheet_id = PStr ''s1'', title_key = []\<rparr> False
        \<lparr>start_service_error = None, responses = (\<lambda>n. HttpError 404), executed = [],
         log_json_error = Some OSError, files = [], logged = []\<rparr>) = Inr False"
  by (simp add: sheet_commit_changes_def document_commit_changes_def spreadsheet_commit_changes_def
        sheets_batch_update_def docs_batch_update_def RETRIES_def eval_nat_numeral execute_def
        log_to_def log_json_def)

text \<open>
  C1. A \<open>Sheet\<close> and a \<open>Spreadsheet\<close> with one queued request, committed with
  \<open>update=False\<close> against a service that answers the batch update: the call returns
  \<open>True\<close> and the queue still holds the request.
\<close>

theorem commit_changes_without_update_keeps_queue:
  "fst (sheet_commit_changes
     \<lparr>json = PNone, requests = [PDict [(''deleteDimension'', PDict [])]],
      spreadsheet_id = PStr ''s1'', sheet_id = PInt 7, sheet_name = PStr ''Tab'',
      width = 0, cell_array = []\<rparr>
     False
     \<lparr>start_service_error = None,
      responses = (\<lambda>n. Returned (PDict [(''spreadsheetId'', PStr ''s1''), (''replies'', PList [PDict []])])),
      executed = [], log_json_error = None, files = [], logged = []\<rparr>) = Inr True
   \<and> requests (fst (snd (sheet_commit_changes
     \<lparr>json = PNone, requests = [PDict [(''deleteDimension'', PDict [])]],
      spreadsheet_id = PStr ''s1'', sheet_id = PInt 7, sheet_name = PStr ''Tab'',
      width = 0, cell_array = []\<rparr>
     False
     \<lparr>start_service_error = None,
      responses = (\<lambda>n. Returned (PDict [(''spreadsheetId'', PStr ''s1''), (''replies'', PList [PDict []])])),
      executed = [], log_json_error = None, files = [], logged = []\<rparr>)))
     = [PDict [(''deleteDimension'', PDict [])]]
   \<and> fst (spreadsheet_commit_changes
     \<lparr>json = PNone, requests = [PDict [(''deleteSheet'', PDict [(''sheetId'', PInt 7)])]],
      spreadsheet_id = PStr ''s1'', title_key = [(PInt 7, PStr ''Tab'')]\<rparr>
     False
     \<lparr>start_service_error = None,
      responses = (\<lambda>n. Returned (PDict [(''spreadsheetId'', PStr ''s1''), (''replies'', PList [PDict []])])),
      executed = [], log_json_error = None, files = [], logged = []\<rparr>) = Inr True
   \<and> requests (fst (snd (spreadsheet_commit_changes
     \<lparr>json = PNone, requests = [PDict [(''deleteSheet'', PDict [(''sheetId'', PInt 7)])]],
      spreadsheet_id = PStr ''s1'', title_key = [(PInt 7, PStr ''Tab'')]\<rparr>
     False
     \<lparr>start_service_error = None,
      responses = (\<lambda>n. Returned (PDict [(''spreadsheetId'', PStr ''s1''), (''replies'', PList [PDict []])])),
      executed = [], log_json_error = None, files = [], logged = []\<rparr>)))
     = [PDict [(''deleteSheet'', PDict [(''sheetId'', PInt 7)])]]"
  by (simp add: sheet_commit_changes_def spreadsheet_commit_changes_def sheets_batch_update_def
        RETRIES_def eval_nat_numeral execute_def)

subsection \<open>Reading the snapshot\<close>

text \<open>
  On a grid of cells as the Sheets API sends them, \<open>get_value\<close> and
  \<open>get_formatted_value\<close> return for every pair of integers; they give \<open>None\<close> when
  the row index is outside \<open>-len .. len - 1\<close> and when the cell is the empty object.
  Both are functions of the \<open>Sheet\<close> object and the two indices alone.
\<close>

lemma py_index_mem: "py_index xs i = Inr x \<Longrightarrow> x \<in> set xs"
  by (auto simp: py_index_def split: if_splits)

lemma py_index_error: "py_index xs i = Inl e \<Longrightarrow> e = IndexError"
  by (auto simp: py_index_def split: if_splits)

lemma py_index_out_of_range:
  "i \<ge> int (length xs) \<or> i < - int (length xs) \<Longrightarrow> py_index xs i = Inl IndexError"
  by (auto simp: py_index_def)

lemma preferred_value_dict: "\<exists>x. preferred_value ts (PDict d) = Inr x"
proof (induction ts)
  case Nil
  show ?case by simp
next
  case (Cons t ts)
  show ?case
  proof (cases "t \<in> set (map fst d)")
    case True
    then obtain v where "map_of d t = Some v"
      by (metis map_of_eq_None_iff not_Some_eq set_map)
    with True show ?thesis by simp
  next
    case False
    with Cons show ?thesis by simp
  qed
qed

lemma cell_lookup:
  assumes "grid_data ca" "py_index ca row = Inr r" "py_index r column = Inr c"
  shows "cell_data c"
proof -
  from assms(2) have "r \<in> set ca" by (rule py_index_mem)
  moreover from assms(3) have "c \<in> set r" by (rule py_index_mem)
  ultimately show ?thesis using assms(1) by (auto simp: grid_data_def list_all_iff)
qed

lemma cell_data_value:
  assumes "cell_data c"
  shows "\<exists>v. thn (dict_get c ''effectiveValue'' PNone) (\<lambda>dflt. dict_get c ''userEnteredValue'' dflt) = Inr v
             \<and> (v = PNone \<or> is_dict v)"
proof -
  from assms obtain d where c: "c = PDict d" by (auto simp: cell_data_def split: pyval.splits)
  from assms c have
    u: "case map_of d ''userEnteredValue'' of None \<Rightarrow> True | Some v \<Rightarrow> v = PNone \<or> is_dict v" and
    e: "case map_of d ''effectiveValue'' of None \<Rightarrow> True | Some v \<Rightarrow> v = PNone \<or> is_dict v"
    by (simp_all add: cell_data_def)
  show ?thesis using u e unfolding c thn_def
    by (cases "map_of d ''userEnteredValue''"; cases "map_of d ''effectiveValue''") auto
qed

lemma get_value_returns:
  assumes "grid_data (cell_array self)"
  shows "\<exists>v. get_value self row column = Inr v"
proof (cases "thn (py_index (cell_array self) row) (\<lambda>r. py_index r column)")
  case (Inl e)
  then have "e = IndexError"
    by (auto simp: thn_def split: sum.splits dest: py_index_error)
  with Inl show ?thesis by (simp add: get_value_def thn_def)
next
  case (Inr c)
  then obtain r where "py_index (cell_array self) row = Inr r" "py_index r column = Inr c"
    by (auto simp: thn_def split: sum.splits)
  with assms have "cell_data c" by (rule cell_lookup)
  from cell_data_value [OF this] obtain v where
    v: "thn (dict_get c ''effectiveValue'' PNone) (\<lambda>dflt. dict_get c ''userEnteredValue'' dflt) = Inr v"
    and shape: "v = PNone \<or> is_dict v" by blast
  have gv: "get_value self row column =
      (if v = PNone then Inr PNone
       else preferred_value [''numberValue'', ''stringValue'', ''boolValue'', ''formulaValue''] v)"
    using Inr v by (simp add: get_value_def thn_def)
  show ?thesis
  proof (cases "v = PNone")
    case True
    with gv show ?thesis by simp
  next
    case False
    with shape obtain d where "v = PDict d" by (cases v) auto
    then obtain x where
      "preferred_value [''numberValue'', ''stringValue'', ''boolValue'', ''formulaValue''] v = Inr x"
      using preferred_value_dict by blast
    with gv False show ?thesis by (simp only: if_False) blast
  qed
qed

lemma get_value_out_of_range:
  assumes "row \<ge> int (length (cell_array self)) \<or> row < - int (length (cell_array self))"
  shows "get_value self row column = Inr PNone"
  using py_index_out_of_range [OF assms] by (simp add: get_value_def thn_def)

lemma get_value_column_out_of_range:
  assumes "py_index (cell_array self) row = Inr r"
    and "column \<ge> int (length r) \<or> column < - int (length r)"
  shows "get_value self row column = Inr PNone"
  using assms(1) py_index_out_of_range [OF assms(2)] by (simp add: get_value_def thn_def)

lemma get_value_empty_cell:
  assumes "py_index (cell_array self) row = Inr r" "py_index r column = Inr (PDict [])"
  shows "get_value self row column = Inr PNone"
  using assms by (simp add: get_value_def thn_def)

lemma get_formatted_value_returns:
  assumes "grid_data (cell_array self)"
  shows "\<exists>v. get_formatted_value self row column = Inr v"
proof (cases "thn (py_index (cell_array self) row) (\<lambda>r. py_index r column)")
  case (Inl e)
  then have "e = IndexError"
    by (auto simp: thn_def split: sum.splits dest: py_index_error)
  with Inl show ?thesis by (simp add: get_formatted_value_def thn_def)
next
  case (Inr c)
  then obtain r where "py_index (cell_array self) row = Inr r" "py_index r column = Inr c"
    by (auto simp: thn_def split: sum.splits)
  with assms have "cell_data c" by (rule cell_lookup)
  then obtain d where c: "c = PDict d" by (auto simp: cell_data_def split: pyval.splits)
  show ?thesis
  proof (cases "''formattedValue'' \<in> set (map fst d)")
    case True
    then obtain v where "map_of d ''formattedValue'' = Some v"
      by (metis map_of_eq_None_iff not_Some_eq set_map)
    with True Inr c show ?thesis by (simp add: get_formatted_value_def thn_def)
  next
    case False
    with Inr c have "get_formatted_value self row column = get_value self row column"
      by (simp add: get_formatted_value_def thn_def)
    with get_value_returns [OF assms] show ?thesis by simp
  qed
qed

lemma get_formatted_value_out_of_range:
  assumes "row \<ge> int (length (cell_array self)) \<or> row < - int (length (cell_array self))"
  shows "get_formatted_value self row column = Inr PNone"
  using py_index_out_of_range [OF assms] by (simp add: get_formatted_value_def thn_def)

text \<open>
  C6. A grid of two rows and one column, read at row \<open>-1\<close>, column \<open>0\<close>: no cell of
  the grid has that position, and both accessors return the content of the last
  row instead of \<open>None\<close>.
\<close>

theorem get_value_negative_index:
  "get_value
     \<lparr>json = PNone, requests = [], spreadsheet_id = PStr ''s1'', sheet_id = PInt 0,
      sheet_name = PStr ''Tab'', width = 1,
      cell_array = [[PDict [(''userEnteredValue'', PDict [(''stringValue'', PStr ''first'')]),
                            (''formattedValue'', PStr ''first'')]],
                    [PDict [(''userEnteredValue'', PDict [(''numberValue'', PInt 5)]),
                            (''formattedValue'', PStr ''5.00'')]]]\<rparr>
     (- 1) 0 = Inr (PInt 5)
   \<and> get_formatted_value
     \<lparr>json = PNone, requests = [], spreadsheet_id = PStr ''s1'', sheet_id = PInt 0,
      sheet_name = PStr ''Tab'', width = 1,
      cell_array = [[PDict [(''userEnteredValue'', PDict [(''stringValue'', PStr ''first'')]),
                            (''formattedValue'', PStr ''first'')]],
                    [PDict [(''userEnteredValue'', PDict [(''numberValue'', PInt 5)]),
                            (''formattedValue'', PStr ''5.00'')]]]\<rparr>
     (- 1) 0 = Inr (PStr ''5.00'')"
  by (simp add: get_value_def get_formatted_value_def thn_def py_index_def)

subsection \<open>Requests\<close>

text \<open>The \<open>finally\<close> clause returns, and only appends to the log, when there is no
  response, when the response has an error status, and when its body can be decoded.\<close>

lemma splunk_post_records: "\<exists>extra. records (splunk_post self w) = records w @ extra"
  by (auto simp: splunk_post_def session_request_def logger_def split: send_outcome.splits)

lemma log_success_ok:
  "\<exists>w' extra. log_success self b d w = (None, w') \<and> records w' = records w @ extra"
  using splunk_post_records [of self w] by (auto simp: log_success_def logger_def)

lemma finally_no_response:
  "\<exists>w' extra. finally_clause self dest None w = (None, w') \<and> records w' = records w @ extra"
  using log_success_ok [of self False _ w]
  by (cases dest) (auto simp: finally_clause_def)

lemma finally_error_response:
  assumes "raises_for_status r"
  shows "\<exists>w' extra. finally_clause self dest (Some r) w = (None, w') \<and> records w' = records w @ extra"
  using assms log_success_ok [of self False _ w]
  by (cases dest) (auto simp: finally_clause_def)

lemma log_response_decodable:
  assumes "\<not> splunk_configured self \<or> valid_utf8 (content r)"
  shows "\<exists>w' extra. log_response self r d w = (None, w') \<and> records w' = records w @ extra"
  using assms splunk_post_records [of self w]
  by (auto simp: log_response_def logger_def decode_utf8_def)

lemma finally_decodable:
  assumes "dest = None \<or> dest = Some [] \<or> \<not> splunk_configured self \<or> valid_utf8 (content r)"
  shows "\<exists>w' extra. finally_clause self dest (Some r) w = (None, w') \<and> records w' = records w @ extra"
proof (cases dest)
  case None
  then show ?thesis by (simp add: finally_clause_def)
next
  case (Some d)
  show ?thesis
  proof (cases "d = []")
    case True
    with Some show ?thesis by (simp add: finally_clause_def)
  next
    case False
    with Some assms have a: "\<not> splunk_configured self \<or> valid_utf8 (content r)" by simp
    show ?thesis
      using Some False log_response_decodable [OF a, of d w] log_success_ok [of self False d w]
      by (auto simp: finally_clause_def)
  qed
qed

lemma finish_ok:
  "finally_clause self dest resp w = (None, w') \<Longrightarrow> finish self dest resp res w = (res, w')"
  by (simp add: finish_def)

lemma log_messages_dicts:
  "list_all is_dict msgs \<Longrightarrow>
     \<exists>w'. log_messages msgs w = (None, w')
        \<and> records w' = records w @ replicate (length msgs) (ERROR, ''API error for %s: %s - %s'')"
proof (induction msgs arbitrary: w)
  case Nil
  then show ?case by simp
next
  case (Cons m msgs)
  then obtain d where m: "m = PDict d" by (cases m) auto
  from Cons have "list_all is_dict msgs" by simp
  from Cons.IH [OF this, of "logger ERROR ''API error for %s: %s - %s'' w"]
  show ?case unfolding m
    by (auto simp: thn_def logger_def replicate_append_same split: option.splits)
qed


lemma log_http_error_envelope:
  assumes "error_envelope r"
  shows "\<exists>w' extra. log_http_error r w = (None, w') \<and> records w' = records w @ extra
            \<and> (\<not> silent_envelope r \<longrightarrow> (\<exists>m. (ERROR, m) \<in> set extra))"
proof (cases "json_body r")
  case None
  then show ?thesis by (auto simp: log_http_error_def logger_def silent_envelope_def)
next
  case (Some j)
  with assms obtain d where j: "j = PDict d"
    by (auto simp: error_envelope_def split: pyval.splits)
  show ?thesis
  proof (cases "map_of d ''messages''")
    case None
    then have "''messages'' \<notin> set (map fst d)"
      by (metis map_of_eq_None_iff set_map)
    with Some j show ?thesis by (auto simp: log_http_error_def logger_def silent_envelope_def)
  next
    case (Some ms)
    with assms \<open>json_body r = Some j\<close> j obtain msgs where ms: "ms = PList msgs" and ok: "list_all is_dict msgs"
      by (auto simp: error_envelope_def split: pyval.splits)
    from Some have mem: "''messages'' \<in> set (map fst d)"
      by (metis map_of_eq_None_iff option.distinct(1) set_map)
    from log_messages_dicts [OF ok, of w] obtain w' where
      lm: "log_messages msgs w = (None, w')"
      and rc: "records w' = records w @ replicate (length msgs) (ERROR, ''API error for %s: %s - %s'')"
      by blast
    have "log_http_error r w = (None, w')"
      using \<open>json_body r = Some j\<close> j Some ms mem lm
      by (simp add: log_http_error_def thn_def)
    moreover have "\<not> silent_envelope r \<longrightarrow>
        (\<exists>m. (ERROR, m) \<in> set (replicate (length msgs) (ERROR, ''API error for %s: %s - %s'')))"
      using \<open>json_body r = Some j\<close> j Some ms
      by (cases msgs) (auto simp: silent_envelope_def)
    ultimately show ?thesis using rc by blast
  qed
qed

text \<open>
  On the failures singled out above \<open>request\<close> returns \<open>None\<close>, and the log has grown
  by at least one ERROR record (unless the error body is an envelope whose
  \<open>messages\<close> list is empty). With \<open>handle_400\<close> set, a response with status 400 returns
  the sentinel \<open>{'message': 'Bad request'}\<close>.
\<close>

lemma request_absorbs_remote_failures:
  "(absorbed_failure self destination handle_400 raw (outcomes w (length (calls w))) \<longrightarrow>
      fst (request self w method endpoint headers destination handle_400 raw) = Inr PNone
      \<and> (\<exists>extra. records (snd (request self w method endpoint headers destination handle_400 raw))
                    = records w @ extra
                 \<and> (\<not> silent_failure (outcomes w (length (calls w))) \<longrightarrow> (\<exists>m. (ERROR, m) \<in> set extra))))
   \<and> (handle_400 \<and> outcomes w (length (calls w)) = Responded r \<and> status_code r = 400 \<longrightarrow>
      fst (request self w method endpoint headers destination handle_400 raw)
        = Inr (PDict [(''message'', PStr ''Bad request'')]))"
proof (intro conjI impI)
  let ?out = "outcomes w (length (calls w))"
  let ?w1 = "w\<lparr>calls := calls w @ [(method, prepare_url (base_url self) endpoint,
                                      merge_headers (default_headers self) headers)]\<rparr>"
  let ?req = "request self w method endpoint headers destination handle_400 raw"
  have sr: "session_request w method (prepare_url (base_url self) endpoint)
              (merge_headers (default_headers self) headers) = (?out, ?w1)"
    by (simp add: session_request_def)
  have w1: "records ?w1 = records w" by simp
  {
    assume of: "absorbed_failure self destination handle_400 raw ?out"
    have "?req = (Inr PNone, snd ?req)
          \<and> (\<exists>extra. records (snd ?req) = records w @ extra
                \<and> (\<not> silent_failure ?out \<longrightarrow> (\<exists>m. (ERROR, m) \<in> set extra)))"
    proof (cases ?out)
      case RaisedTimeout
      from finally_no_response [of self destination "logger ERROR ''Request to %s timed out.'' ?w1"]
      obtain w' extra where
        f: "finally_clause self destination None (logger ERROR ''Request to %s timed out.'' ?w1) = (None, w')"
        and r: "records w' = records (logger ERROR ''Request to %s timed out.'' ?w1) @ extra" by blast
      have "?req = (Inr PNone, w')"
        using sr RaisedTimeout finish_ok [OF f] by (simp add: request_def)
      with r show ?thesis by (auto simp: logger_def)
    next
      case RaisedHTTPError
      from finally_no_response [of self destination "logger ERROR ''No response on HTTPError for %s: %s'' ?w1"]
      obtain w' extra where
        f: "finally_clause self destination None (logger ERROR ''No response on HTTPError for %s: %s'' ?w1) = (None, w')"
        and r: "records w' = records (logger ERROR ''No response on HTTPError for %s: %s'' ?w1) @ extra" by blast
      have "?req = (Inr PNone, w')"
        using sr RaisedHTTPError finish_ok [OF f] by (simp add: request_def)
      with r show ?thesis by (auto simp: logger_def)
    next
      case RaisedRequestException
      from finally_no_response [of self destination "logger ERROR ''Request exception for %s: %s'' ?w1"]
      obtain w' extra where
        f: "finally_clause self destination None (logger ERROR ''Request exception for %s: %s'' ?w1) = (None, w')"
        and r: "records w' = records (logger ERROR ''Request exception for %s: %s'' ?w1) @ extra" by blast
      have "?req = (Inr PNone, w')"
        using sr RaisedRequestException finish_ok [OF f] by (simp add: request_def)
      with r show ?thesis by (auto simp: logger_def)
    next
      case (Responded r)
      show ?thesis
      proof (cases "raises_for_status r")
        case True
        with of Responded have env: "error_envelope r" and nh: "\<not> (handle_400 \<and> status_code r = 400)"
          by (simp_all add: absorbed_failure_def)
        from log_http_error_envelope [OF env, of ?w1] obtain w2 extra2 where
          l: "log_http_error r ?w1 = (None, w2)" and r2: "records w2 = records ?w1 @ extra2"
          and e2: "\<not> silent_envelope r \<longrightarrow> (\<exists>m. (ERROR, m) \<in> set extra2)" by blast
        from finally_error_response [OF True, of self destination w2] obtain w' extra where
          f: "finally_clause self destination (Some r) w2 = (None, w')"
          and r3: "records w' = records w2 @ extra" by blast
        from nh have nh': "(handle_400 \<and> status_code r = 400) = False" by simp
        have "?req = (Inr PNone, w')"
          using sr Responded True l finish_ok [OF f] by (simp add: request_def nh')
        moreover have "records w' = records w @ (extra2 @ extra)" using r2 r3 by simp
        moreover have "\<not> silent_failure ?out \<longrightarrow> (\<exists>m. (ERROR, m) \<in> set (extra2 @ extra))"
          using e2 Responded True by (auto simp: silent_failure_def)
        ultimately show ?thesis by (metis snd_conv)
      next
        case False
        with of Responded have nr: "\<not> raw" and nj: "json_body r = None"
          and dec: "destination = None \<or> destination = Some [] \<or> \<not> splunk_configured self
                    \<or> valid_utf8 (content r)"
          by (simp_all add: absorbed_failure_def)
        from finally_decodable [OF dec, of "logger ERROR ''Request exception for %s: %s'' ?w1"]
        obtain w' extra where
          f: "finally_clause self destination (Some r) (logger ERROR ''Request exception for %s: %s'' ?w1) = (None, w')"
          and r3: "records w' = records (logger ERROR ''Request exception for %s: %s'' ?w1) @ extra" by blast
        have "?req = (Inr PNone, w')"
          using sr Responded False nr nj finish_ok [OF f] by (simp add: request_def)
        with r3 show ?thesis by (auto simp: logger_def)
      qed
    qed
  }
  note main = this
  {
    assume of: "absorbed_failure self destination handle_400 raw ?out"
    from main [OF of] show "fst ?req = Inr PNone" by (metis fst_conv)
    from main [OF of] show "\<exists>extra. records (snd ?req) = records w @ extra
                \<and> (\<not> silent_failure ?out \<longrightarrow> (\<exists>m. (ERROR, m) \<in> set extra))" by blast
  }
  {
    assume h: "handle_400 \<and> ?out = Responded r \<and> status_code r = 400"
    then have rs: "raises_for_status r" by (simp add: raises_for_status_def)
    from finally_error_response [OF rs, of self destination
           "logger INFO ''Bad request accepted as having meaning (probably non existent annature envelope) for %s: %s'' ?w1"]
    obtain w' extra where
      f: "finally_clause self destination (Some r)
            (logger INFO ''Bad request accepted as having meaning (probably non existent annature envelope) for %s: %s'' ?w1) = (None, w')" by blast
    show "fst ?req = Inr (PDict [(''message'', PStr ''Bad request'')])"
      using sr h rs finish_ok [OF f] by (simp add: request_def)
  }
qed

text \<open>
  C2. Three responses of the remote side on which \<open>request\<close> raises in place of
  returning \<open>None\<close>. A 404 whose body is the JSON \<open>null\<close>: the membership test
  \<open>"messages" in error_json\<close> raises TypeError. A 404 whose body is
  \<open>{"messages": ["Not found"]}\<close>: \<open>msg.get\<close> on a string raises AttributeError. Around
  both only \<open>JSONDecodeError\<close> is caught. A 200 whose body is the byte \<open>0xFF\<close>, which is
  neither JSON nor UTF-8, asked for with a destination by a client with Splunk
  logging set up: \<open>response.json()\<close> fails and is absorbed, then \<open>log_response\<close> in the
  \<open>finally\<close> clause raises UnicodeDecodeError from \<open>response.content.decode()\<close>.
\<close>

theorem request_raises_on_unexpected_body:
  "fst (request
      \<lparr>base_url = Some ''https://api.xero.com'', default_headers = [], splunk_log_url = None,
       splunk_log_headers = None\<rparr>
      \<lparr>outcomes = (\<lambda>n. Responded \<lparr>status_code = 404, content = ''null'', json_body = Some PNone\<rparr>),
       calls = [], records = []\<rparr>
      ''GET'' ''connections'' [] None False False) = Inl TypeError
   \<and> fst (request
      \<lparr>base_url = Some ''https://api.xero.com'', default_headers = [], splunk_log_url = None,
       splunk_log_headers = None\<rparr>
      \<lparr>outcomes = (\<lambda>n. Responded \<lparr>status_code = 404,
         content = ''{'' @ [CHR 0x22] @ ''messages'' @ [CHR 0x22] @ '': ['' @ [CHR 0x22]
                     @ ''Not found'' @ [CHR 0x22] @ '']}'',
         json_body = Some (PDict [(''messages'', PList [PStr ''Not found''])])\<rparr>),
       calls = [], records = []\<rparr>
      ''GET'' ''connections'' [] None False False) = Inl AttributeError
   \<and> fst (request
      \<lparr>base_url = Some ''https://api.xero.com'', default_headers = [],
       splunk_log_url = Some ''https://splunk.example/collector'',
       splunk_log_headers = Some [(''Authorization'', ''Splunk token'')]\<rparr>
      \<lparr>outcomes = (\<lambda>n. Responded \<lparr>status_code = 200, content = [CHR 0xFF], json_body = None\<rparr>),
       calls = [], records = []\<rparr>
      ''GET'' ''connections'' [] (Some ''xero'') False False) = Inl UnicodeDecodeError"
  by (simp add: raises_for_status_def request_def session_request_def finish_def finally_clause_def
        log_http_error_def thn_def logger_def splunk_configured_def log_response_def decode_utf8_def)

subsection \<open>Polling\<close>

text \<open>One round against a pending endpoint: the poll is recorded with the clock
  reading at its start, one sleep of one second follows, and the clock has moved on
  by at least a second.\<close>

lemma ceiling_step: "0 < (x::real) \<Longrightarrow> y \<le> x - 1 \<Longrightarrow> nat \<lceil>y\<rceil> < nat \<lceil>x\<rceil>"
  by linarith

lemma pending_shape:
  assumes "pending r"
  obtains d where "r = Inr (PDict d)" "map_of d ''status'' = Some (PStr ''pending'')"
  using assms by (auto simp: pending_def split: sum.splits pyval.splits)

lemma poll_round:
  assumes ap: "always_pending w" and lt: "now w - start < timeout"
  shows "always_pending (sleep 1 (snd (poll_get w)))"
    and "now w + 1 \<le> now (sleep 1 (snd (poll_get w)))"
    and "polled (sleep 1 (snd (poll_get w))) = polled w @ [now w]"
    and "slept (sleep 1 (snd (poll_get w))) = slept w @ [1]"
    and "poll_log (sleep 1 (snd (poll_get w))) = poll_log w"
proof -
  from ap have l: "0 \<le> latency w (length (polled w))" and o: "0 \<le> oversleep w (length (slept w))"
    by (simp_all add: always_pending_def)
  show "always_pending (sleep 1 (snd (poll_get w)))"
    using ap by (simp add: always_pending_def sleep_def poll_get_def)
  show "now w + 1 \<le> now (sleep 1 (snd (poll_get w)))"
    using l o by (simp add: sleep_def poll_get_def)
  show "polled (sleep 1 (snd (poll_get w))) = polled w @ [now w]"
    by (simp add: sleep_def poll_get_def)
  show "slept (sleep 1 (snd (poll_get w))) = slept w @ [1]"
    by (simp add: sleep_def poll_get_def)
  show "poll_log (sleep 1 (snd (poll_get w))) = poll_log w"
    by (simp add: sleep_def poll_get_def)
qed

lemma report_loop_unfold_pending:
  assumes ap: "always_pending w" and lt: "now w - start < timeout"
  shows "report_loop fm tm start timeout w = report_loop fm tm start timeout (sleep 1 (snd (poll_get w)))"
proof -
  from ap have "pending (results w (length (polled w)))" by (simp add: always_pending_def)
  then obtain d where r: "results w (length (polled w)) = Inr (PDict d)"
    and st: "map_of d ''status'' = Some (PStr ''pending'')" by (rule pending_shape)
  obtain w1 where pg: "poll_get w = (Inr (PDict d), w1)"
    using r by (simp add: poll_get_def)
  then have w1: "snd (poll_get w) = w1" by simp
  have "report_loop fm tm start timeout w = report_loop fm tm start timeout (sleep 1 w1)"
    by (subst report_loop.simps) (simp add: lt pg st)
  then show ?thesis by (simp only: w1)
qed

lemma statement_lines_loop_unfold_pending:
  assumes ap: "always_pending w" and lt: "now w - start < timeout"
  shows "statement_lines_loop start timeout w = statement_lines_loop start timeout (sleep 1 (snd (poll_get w)))"
proof -
  from ap have "pending (results w (length (polled w)))" by (simp add: always_pending_def)
  then obtain d where r: "results w (length (polled w)) = Inr (PDict d)"
    and st: "map_of d ''status'' = Some (PStr ''pending'')" by (rule pending_shape)
  obtain w1 where pg: "poll_get w = (Inr (PDict d), w1)"
    using r by (simp add: poll_get_def)
  then have w1: "snd (poll_get w) = w1" by simp
  have "statement_lines_loop start timeout w = statement_lines_loop start timeout (sleep 1 w1)"
    by (subst statement_lines_loop.simps) (simp add: lt pg st)
  then show ?thesis by (simp only: w1)
qed

lemma report_loop_pending:
  assumes "always_pending w"
    and "\<forall>t\<in>set (polled w). t - start < timeout"
    and "slept w = replicate (length (polled w)) 1"
  shows "\<exists>w'. report_loop fm tm start timeout w = Some (Inr PNone, w')
     \<and> (\<forall>t\<in>set (polled w'). t - start < timeout)
     \<and> slept w' = replicate (length (polled w')) 1
     \<and> timeout \<le> now w' - start
     \<and> poll_log w' = poll_log w @ [(ERROR, tm)]
     \<and> length (polled w') \<le> length (polled w) + nat \<lceil>timeout - (now w - start)\<rceil>"
  using assms
proof (induction w rule: measure_induct_rule [where f = "\<lambda>w. nat \<lceil>timeout - (now w - start)\<rceil>"])
  case (less w)
  show ?case
  proof (cases "now w - start < timeout")
    case False
    have "report_loop fm tm start timeout w = Some (Inr PNone, poll_error tm w)"
      by (subst report_loop.simps) (simp add: False)
    with False less.prems show ?thesis by (simp add: poll_error_def)
  next
    case True
    let ?w2 = "sleep 1 (snd (poll_get w))"
    note r = poll_round [OF less.prems(1) True]
    have dec: "nat \<lceil>timeout - (now ?w2 - start)\<rceil> < nat \<lceil>timeout - (now w - start)\<rceil>"
      using True r(2) by (intro ceiling_step) linarith+
    have p2: "\<forall>t\<in>set (polled ?w2). t - start < timeout"
      using less.prems(2) True r(3) by simp
    have s2: "slept ?w2 = replicate (length (polled ?w2)) 1"
      using less.prems(3) r(3) r(4) by (simp add: replicate_append_same)
    from less.IH [OF dec r(1) p2 s2] obtain w' where
      res: "report_loop fm tm start timeout ?w2 = Some (Inr PNone, w')"
      and a: "\<forall>t\<in>set (polled w'). t - start < timeout"
      and b: "slept w' = replicate (length (polled w')) 1"
      and c: "timeout \<le> now w' - start"
      and d: "poll_log w' = poll_log ?w2 @ [(ERROR, tm)]"
      and e: "length (polled w') \<le> length (polled ?w2) + nat \<lceil>timeout - (now ?w2 - start)\<rceil>"
      by blast
    have "report_loop fm tm start timeout w = Some (Inr PNone, w')"
      using report_loop_unfold_pending [OF less.prems(1) True, of fm tm] res by simp
    moreover have "poll_log w' = poll_log w @ [(ERROR, tm)]" using d r(5) by simp
    moreover have "length (polled ?w2) = Suc (length (polled w))" using r(3) by simp
    then have "length (polled w') \<le> length (polled w) + nat \<lceil>timeout - (now w - start)\<rceil>"
      using e dec by linarith
    ultimately show ?thesis using a b c by blast
  qed
qed

lemma statement_lines_loop_pending:
  assumes "always_pending w"
    and "\<forall>t\<in>set (polled w). t - start < timeout"
    and "slept w = replicate (length (polled w)) 1"
  shows "\<exists>w'. statement_lines_loop start timeout w = Some (Inr PNone, w')
     \<and> (\<forall>t\<in>set (polled w'). t - start < timeout)
     \<and> slept w' = replicate (length (polled w')) 1
     \<and> timeout \<le> now w' - start
     \<and> poll_log w' = poll_log w @ [(ERROR, ''Get uncoded statement lines timed out after %d seconds'')]
     \<and> length (polled w') \<le> length (polled w) + nat \<lceil>timeout - (now w - start)\<rceil>"
  using assms
proof (induction w rule: measure_induct_rule [where f = "\<lambda>w. nat \<lceil>timeout - (now w - start)\<rceil>"])
  case (less w)
  show ?case
  proof (cases "now w - start < timeout")
    case False
    have "statement_lines_loop start timeout w
            = Some (Inr PNone, poll_error ''Get uncoded statement lines timed out after %d seconds'' w)"
      by (subst statement_lines_loop.simps) (simp add: False)
    with False less.prems show ?thesis by (simp add: poll_error_def)
  next
    case True
    let ?w2 = "sleep 1 (snd (poll_get w))"
    note r = poll_round [OF less.prems(1) True]
    have dec: "nat \<lceil>timeout - (now ?w2 - start)\<rceil> < nat \<lceil>timeout - (now w - start)\<rceil>"
      using True r(2) by (intro ceiling_step) linarith+
    have p2: "\<forall>t\<in>set (polled ?w2). t - start < timeout"
      using less.prems(2) True r(3) by simp
    have s2: "slept ?w2 = replicate (length (polled ?w2)) 1"
      using less.prems(3) r(3) r(4) by (simp add: replicate_append_same)
    from less.IH [OF dec r(1) p2 s2] obtain w' where
      res: "statement_lines_loop start timeout ?w2 = Some (Inr PNone, w')"
      and a: "\<forall>t\<in>set (polled w'). t - start < timeout"
      and b: "slept w' = replicate (length (polled w')) 1"
      and c: "timeout \<le> now w' - start"
      and d: "poll_log w' = poll_log ?w2 @ [(ERROR, ''Get uncoded statement lines timed out after %d seconds'')]"
      and e: "length (polled w') \<le> length (polled ?w2) + nat \<lceil>timeout - (now ?w2 - start)\<rceil>"
      by blast
    have "statement_lines_loop start timeout w = Some (Inr PNone, w')"
      using statement_lines_loop_unfold_pending [OF less.prems(1) True] res by simp
    moreover have "poll_log w' = poll_log w @ [(ERROR, ''Get uncoded statement lines timed out after %d seconds'')]"
      using d r(5) by simp
    moreover have "length (polled ?w2) = Suc (length (polled w))" using r(3) by simp
    then have "length (polled w') \<le> length (polled w) + nat \<lceil>timeout - (now w - start)\<rceil>"
      using e dec by linarith
    ultimately show ?thesis using a b c by blast
  qed
qed

text \<open>
  C8. Against a status endpoint that always answers \<open>pending\<close>, on a clock that does
  not run backwards, \<open>get_management_report\<close> and \<open>get_uncoded_statement_lines\<close>
  return, and return \<open>None\<close>: every poll began less than \<open>timeout\<close> seconds after the
  start, each poll was followed by one \<open>time.sleep(1)\<close>, there were at most
  \<open>\<lceil>timeout\<rceil>\<close> polls, at least \<open>timeout\<close> seconds have passed at the return, and
  the "timed out" record is the last thing logged.
\<close>

theorem polling_respects_timeout:
  assumes "always_pending w" and "polled w = []" and "slept w = []"
  shows "(\<exists>w'. get_management_report timeout w = Some (Inr PNone, w')
           \<and> (\<forall>t\<in>set (polled w'). t - now w < timeout)
           \<and> slept w' = replicate (length (polled w')) 1
           \<and> length (polled w') \<le> nat \<lceil>timeout\<rceil>
           \<and> timeout \<le> now w' - now w
           \<and> poll_log w' = poll_log w @ [(ERROR, ''Get management report timed out after %d seconds'')])
       \<and> (\<exists>w'. get_uncoded_statement_lines timeout w = Some (Inr PNone, w')
           \<and> (\<forall>t\<in>set (polled w'). t - now w < timeout)
           \<and> slept w' = replicate (length (polled w')) 1
           \<and> length (polled w') \<le> nat \<lceil>timeout\<rceil>
           \<and> timeout \<le> now w' - now w
           \<and> poll_log w' = poll_log w @ [(ERROR, ''Get uncoded statement lines timed out after %d seconds'')])"
proof
  have p: "\<forall>t\<in>set (polled w). t - now w < timeout" using assms(2) by simp
  have s: "slept w = replicate (length (polled w)) 1" using assms(2,3) by simp
  from report_loop_pending [OF assms(1) p s, of "''Get management report failed due to API error.''"
         "''Get management report timed out after %d seconds''"]
  show "\<exists>w'. get_management_report timeout w = Some (Inr PNone, w')
           \<and> (\<forall>t\<in>set (polled w'). t - now w < timeout)
           \<and> slept w' = replicate (length (polled w')) 1
           \<and> length (polled w') \<le> nat \<lceil>timeout\<rceil>
           \<and> timeout \<le> now w' - now w
           \<and> poll_log w' = poll_log w @ [(ERROR, ''Get management report timed out after %d seconds'')]"
    using assms(2) by (auto simp: get_management_report_def)
  from statement_lines_loop_pending [OF assms(1) p s]
  show "\<exists>w'. get_uncoded_statement_lines timeout w = Some (Inr PNone, w')
           \<and> (\<forall>t\<in>set (polled w'). t - now w < timeout)
           \<and> slept w' = replicate (length (polled w')) 1
           \<and> length (polled w') \<le> nat \<lceil>timeout\<rceil>
           \<and> timeout \<le> now w' - now w
           \<and> poll_log w' = poll_log w @ [(ERROR, ''Get uncoded statement lines timed out after %d seconds'')]"
    using assms(2) by (auto simp: get_uncoded_statement_lines_def)
qed

theorem polling_respects_timeout_witness:
  "always_pending
     \<lparr>now = 100, results = (\<lambda>n. Inr (PDict [(''status'', PStr ''pending'')])),
      latency = (\<lambda>n. 1 / 4), oversleep = (\<lambda>n. 0), polled = [], slept = [], poll_log = [],
      b64decode = Inr\<rparr>
   \<and> get_management_report 2
     \<lparr>now = 100, results = (\<lambda>n. Inr (PDict [(''status'', PStr ''pending'')])),
      latency = (\<lambda>n. 1 / 4), oversleep = (\<lambda>n. 0), polled = [], slept = [], poll_log = [],
      b64decode = Inr\<rparr>
     = Some (Inr PNone,
        \<lparr>now = 100 + 5 / 2, results = (\<lambda>n. Inr (PDict [(''status'', PStr ''pending'')])),
         latency = (\<lambda>n. 1 / 4), oversleep = (\<lambda>n. 0), polled = [100, 100 + 5 / 4], slept = [1, 1],
         poll_log = [(ERROR, ''Get management report timed out after %d seconds'')],
         b64decode = Inr\<rparr>)"
proof -
  let ?w = "\<lparr>now = 100, results = (\<lambda>n. Inr (PDict [(''status'', PStr ''pending'')])),
      latency = (\<lambda>n. 1 / 4), oversleep = (\<lambda>n. 0), polled = [], slept = [], poll_log = [],
      b64decode = Inr\<rparr>"
  have ap: "always_pending ?w" by (simp add: always_pending_def pending_def)
  have p: "polled ?w = []" and s: "slept ?w = []" by simp_all
  have ev: "get_management_report 2 ?w = Some (Inr PNone,
        \<lparr>now = 100 + 5 / 2, results = (\<lambda>n. Inr (PDict [(''status'', PStr ''pending'')])),
         latency = (\<lambda>n. 1 / 4), oversleep = (\<lambda>n. 0), polled = [100, 100 + 5 / 4], slept = [1, 1],
         poll_log = [(ERROR, ''Get management report timed out after %d seconds'')],
         b64decode = Inr\<rparr>)"
    by (simp add: get_management_report_def report_loop.simps poll_get_def sleep_def poll_error_def)
  from polling_respects_timeout [OF ap p s, of 2] ap ev show ?thesis by simp
qed

subsection \<open>Journals\<close>

text \<open>Every normalized line carries the key \<open>journal_number\<close>, and a page that
  normalizes at all is a non-empty object, so the test \<open>not journals_raw\<close> lets it
  pass.\<close>

lemma thn_Inr: "thn r f = Inr y \<longleftrightarrow> (\<exists>x. r = Inr x \<and> f x = Inr y)"
  by (cases r) (simp_all add: thn_def)

lemma new_line_journal_number:
  "new_line int_of journal line extracted = Inr l \<Longrightarrow> \<exists>n. getitem_str l ''journal_number'' = Inr n"
  by (auto simp: new_line_def thn_Inr)

lemma lines_loop_journal_number:
  "lines_loop int_of journal extracted ls = Inr out \<Longrightarrow>
     \<forall>l\<in>set out. \<exists>n. getitem_str l ''journal_number'' = Inr n"
proof (induction ls arbitrary: out)
  case Nil
  then show ?case by simp
next
  case (Cons a ls)
  then show ?case
    by (auto split: sum.splits dest: new_line_journal_number)
qed

lemma journals_loop_journal_number:
  "journals_loop int_of js extracted = Inr out \<Longrightarrow>
     \<forall>l\<in>set out. \<exists>n. getitem_str l ''journal_number'' = Inr n"
proof (induction js arbitrary: out)
  case Nil
  then show ?case by simp
next
  case (Cons j js)
  show ?case
  proof (cases "py_truthy j")
    case False
    with Cons show ?thesis by simp
  next
    case True
    with Cons.prems obtain ls others where
      a: "thn (thn (dict_get j ''JournalLines'' (PList [])) py_iter) (lines_loop int_of j extracted) = Inr ls"
      and b: "journals_loop int_of js extracted = Inr others" and c: "out = ls @ others"
      by (auto split: sum.splits)
    from a obtain raw where "lines_loop int_of j extracted raw = Inr ls" by (auto simp: thn_Inr)
    from lines_loop_journal_number [OF this] Cons.IH [OF b] c show ?thesis by auto
  qed
qed

lemma simplify_journals_journal_number:
  "simplify_journals int_of p extracted = Inr out \<Longrightarrow>
     \<forall>l\<in>set out. \<exists>n. getitem_str l ''journal_number'' = Inr n"
  by (auto simp: simplify_journals_def thn_Inr dest: journals_loop_journal_number)

lemma simplify_journals_truthy: "simplify_journals int_of p extracted = Inr out \<Longrightarrow> py_truthy p"
  by (cases p) (auto simp: simplify_journals_def thn_Inr split: option.splits)

text \<open>The run of the loop from the \<open>i\<close>-th request on, with what has been
  accumulated so far.\<close>

lemma page_lines_page:
  assumes "page_lines w i = Inr ls"
  obtains p where "pages w i = Inr p" "simplify_journals (builtin_int w) p (clock_text w i) = Inr ls"
    "py_truthy p"
  using assms simplify_journals_truthy by (auto simp: page_lines_def thn_Inr)

lemma journals_pages_run:
  assumes ue: "pages_until_empty w0 k"
    and same: "pages w = pages w0" "clock_text w = clock_text w0" "builtin_int w = builtin_int w0"
    and pos: "length (requested w) = i" "i \<le> k"
  shows "\<exists>w'. journals_pages acc params w
            = Some (Inr (PList (acc @ concat (map (normalized w0) [i..<k]))), w')
          \<and> requested w' = requested w @ params # map (offset_after w0) [i..<k]
          \<and> xero_log w' = xero_log w"
  using same pos
proof (induction "k - i" arbitrary: i acc params w)
  case 0
  note pw = \<open>pages w = pages w0\<close> and cw = \<open>clock_text w = clock_text w0\<close>
    and bw = \<open>builtin_int w = builtin_int w0\<close> and ln = \<open>length (requested w) = i\<close>
  from 0 have ik: "i = k" by simp
  from ue have "page_lines w0 k = Inr []" by (simp add: pages_until_empty_def)
  then obtain p where p: "pages w0 k = Inr p"
    "simplify_journals (builtin_int w0) p (clock_text w0 k) = Inr []"
    "py_truthy p" by (rule page_lines_page)
  let ?w1 = "w\<lparr>requested := requested w @ [params]\<rparr>"
  have g: "journals_get w params = (Inr p, ?w1)"
    by (simp add: journals_get_def pw ln ik p(1))
  have c: "clock_text w (length (requested w)) = clock_text w0 k"
    by (simp add: cw ln ik)
  have "journals_pages acc params w = Some (Inr (PList acc), ?w1)"
    by (subst journals_pages.simps) (simp add: g p(2,3) c bw)
  then show ?case by (simp add: ik)
next
  case (Suc m)
  note pw = \<open>pages w = pages w0\<close> and cw = \<open>clock_text w = clock_text w0\<close>
    and bw = \<open>builtin_int w = builtin_int w0\<close> and ln = \<open>length (requested w) = i\<close>
  from Suc have lt: "i < k" by simp
  with ue obtain ls where ls: "page_lines w0 i = Inr ls" "ls \<noteq> []"
    by (auto simp: pages_until_empty_def)
  then obtain p where p: "pages w0 i = Inr p"
    "simplify_journals (builtin_int w0) p (clock_text w0 i) = Inr ls"
    "py_truthy p" by (metis page_lines_page)
  from simplify_journals_journal_number [OF p(2)] ls(2) obtain n where
    n: "getitem_str (last ls) ''journal_number'' = Inr n" by (meson last_in_set)
  have norm: "normalized w0 i = ls" using ls(1) by (simp add: normalized_def)
  have off: "offset_after w0 i = PDict [(''offset'', n)]"
    using norm n by (simp add: offset_after_def)
  let ?w1 = "w\<lparr>requested := requested w @ [params]\<rparr>"
  have g: "journals_get w params = (Inr p, ?w1)"
    by (simp add: journals_get_def pw ln p(1))
  have c: "clock_text w (length (requested w)) = clock_text w0 i"
    by (simp add: cw ln)
  have step: "journals_pages acc params w = journals_pages (acc @ ls) (PDict [(''offset'', n)]) ?w1"
    by (subst journals_pages.simps) (simp add: g p(2,3) c bw ls(2) n)
  have m: "m = k - Suc i" using Suc.hyps(2) by simp
  have "pages ?w1 = pages w0" "clock_text ?w1 = clock_text w0" "builtin_int ?w1 = builtin_int w0"
    "length (requested ?w1) = Suc i" "Suc i \<le> k"
    using lt by (simp_all add: pw cw bw ln)
  from Suc.hyps(1) [OF m this, of "acc @ ls" "PDict [(''offset'', n)]"] obtain w' where
    r: "journals_pages (acc @ ls) (PDict [(''offset'', n)]) ?w1
          = Some (Inr (PList ((acc @ ls) @ concat (map (normalized w0) [Suc i..<k]))), w')"
    and q: "requested w' = requested ?w1 @ PDict [(''offset'', n)] # map (offset_after w0) [Suc i..<k]"
    and l: "xero_log w' = xero_log ?w1" by blast
  have up: "[i..<k] = i # [Suc i..<k]" using lt by (rule upt_conv_Cons)
  show ?case
    using step r q l by (simp add: up norm off)
qed

text \<open>
  C5. When the pages before the \<open>k\<close>-th each yield at least one normalized line and
  the \<open>k\<close>-th yields none, \<open>get_journals\<close> returns: its result is the concatenation,
  in fetch order, of the normalized lines of the pages before the \<open>k\<close>-th; the first
  request carries no \<open>params\<close>, and each later one carries as \<open>offset\<close> the
  \<open>journal_number\<close> of the last normalized line of the page before it.
\<close>

theorem get_journals_paginates:
  assumes "pages_until_empty w k" and "requested w = []"
  shows "\<exists>w'. get_journals (Some (Some tenant, Some token)) w
            = Some (Inr (PList (concat (map (normalized w) [0..<k]))), w')
          \<and> requested w' = PNone # map (offset_after w) [0..<k]
          \<and> xero_log w' = xero_log w"
proof -
  have "length (requested w) = 0" using assms(2) by simp
  from journals_pages_run [OF assms(1) refl refl refl this, of "[]" PNone]
  show ?thesis using assms(2) by (simp add: get_journals_def)
qed

lemma simplify_journals_example:
  "simplify_journals
     (\<lambda>v. if v = PStr ''1573755038000'' then Inr 1573755038000
                          else if v = PStr ''1573755038314'' then Inr 1573755038314
                          else Inl ValueError)
     (PDict [(''Journals'', PList [PDict [
        (''JournalID'', PStr ''j1''), (''JournalNumber'', PInt 41),
        (''JournalDate'', PStr ''/Date(1573755038000+0000)/''),
        (''CreatedDateUTC'', PStr ''/Date(1573755038314+0000)/''),
        (''JournalLines'', PList [PDict [(''JournalLineID'', PStr ''l1''), (''NetAmount'', PInt 10)]])]])])
     ''01/02/2025 03:04:05''
   = Inr [PDict [
         (''timestamp'', PInt 1573755038),
         (''extracted'', PStr ''01/02/2025 03:04:05''),
         (''journal_id'', PStr ''j1''),
         (''journal_number'', PInt 41),
         (''created_date_utc'', PInt 1573755038),
         (''journal_reference'', PNone),
         (''source_id'', PNone),
         (''journal_type'', PNone),
         (''journal_line_id'', PStr ''l1''),
         (''account_id'', PNone),
         (''account_code'', PNone),
         (''account_type'', PNone),
         (''account_name'', PNone),
         (''description'', PNone),
         (''net_amount'', PInt 10),
         (''gross_amount'', PNone),
         (''tax_amount'', PNone),
         (''tax_name'', PNone),
         (''tracking'', PNone)]]"
  by (simp add: simplify_journals_def new_line_def date_to_seconds_def thn_def slice_6_def
        continuation_def)

theorem get_journals_paginates_witness:
  "pages_until_empty
     \<lparr>pages = (\<lambda>n. if n = 0 then Inr (PDict [(''Journals'', PList [PDict [
        (''JournalID'', PStr ''j1''), (''JournalNumber'', PInt 41),
        (''JournalDate'', PStr ''/Date(1573755038000+0000)/''),
        (''CreatedDateUTC'', PStr ''/Date(1573755038314+0000)/''),
        (''JournalLines'', PList [PDict [(''JournalLineID'', PStr ''l1''), (''NetAmount'', PInt 10)]])]])])
                   else Inr (PDict [(''Journals'', PList [])])),
      clock_text = (\<lambda>n. ''01/02/2025 03:04:05''),
      builtin_int = (\<lambda>v. if v = PStr ''1573755038000'' then Inr 1573755038000
                          else if v = PStr ''1573755038314'' then Inr 1573755038314
                          else Inl ValueError),
      requested = [], xero_log = []\<rparr> 1
   \<and> fst (the (get_journals (Some (Some ''tenant'', Some ''token''))
     \<lparr>pages = (\<lambda>n. if n = 0 then Inr (PDict [(''Journals'', PList [PDict [
        (''JournalID'', PStr ''j1''), (''JournalNumber'', PInt 41),
        (''JournalDate'', PStr ''/Date(1573755038000+0000)/''),
        (''CreatedDateUTC'', PStr ''/Date(1573755038314+0000)/''),
        (''JournalLines'', PList [PDict [(''JournalLineID'', PStr ''l1''), (''NetAmount'', PInt 10)]])]])])
                   else Inr (PDict [(''Journals'', PList [])])),
      clock_text = (\<lambda>n. ''01/02/2025 03:04:05''),
      builtin_int = (\<lambda>v. if v = PStr ''1573755038000'' then Inr 1573755038000
                          else if v = PStr ''1573755038314'' then Inr 1573755038314
                          else Inl ValueError),
      requested = [], xero_log = []\<rparr>))
       = Inr (PList [PDict [
         (''timestamp'', PInt 1573755038),
         (''extracted'', PStr ''01/02/2025 03:04:05''),
         (''journal_id'', PStr ''j1''),
         (''journal_number'', PInt 41),
         (''created_date_utc'', PInt 1573755038),
         (''journal_reference'', PNone),
         (''source_id'', PNone),
         (''journal_type'', PNone),
         (''journal_line_id'', PStr ''l1''),
         (''account_id'', PNone),
         (''account_code'', PNone),
         (''account_type'', PNone),
         (''account_name'', PNone),
         (''description'', PNone),
         (''net_amount'', PInt 10),
         (''gross_amount'', PNone),
         (''tax_amount'', PNone),
         (''tax_name'', PNone),
         (''tracking'', PNone)]])
   \<and> requested (snd (the (get_journals (Some (Some ''tenant'', Some ''token''))
     \<lparr>pages = (\<lambda>n. if n = 0 then Inr (PDict [(''Journals'', PList [PDict [
        (''JournalID'', PStr ''j1''), (''JournalNumber'', PInt 41),
        (''JournalDate'', PStr ''/Date(1573755038000+0000)/''),
        (''CreatedDateUTC'', PStr ''/Date(1573755038314+0000)/''),
        (''JournalLines'', PList [PDict [(''JournalLineID'', PStr ''l1''), (''NetAmount'', PInt 10)]])]])])
                   else Inr (PDict [(''Journals'', PList [])])),
      clock_text = (\<lambda>n. ''01/02/2025 03:04:05''),
      builtin_int = (\<lambda>v. if v = PStr ''1573755038000'' then Inr 1573755038000
                          else if v = PStr ''1573755038314'' then Inr 1573755038314
                          else Inl ValueError),
      requested = [], xero_log = []\<rparr>)))
       = [PNone, PDict [(''offset'', PInt 41)]]"
proof -
  let ?w = "\<lparr>pages = (\<lambda>n. if n = 0 then Inr (PDict [(''Journals'', PList [PDict [
        (''JournalID'', PStr ''j1''), (''JournalNumber'', PInt 41),
        (''JournalDate'', PStr ''/Date(1573755038000+0000)/''),
        (''CreatedDateUTC'', PStr ''/Date(1573755038314+0000)/''),
        (''JournalLines'', PList [PDict [(''JournalLineID'', PStr ''l1''), (''NetAmount'', PInt 10)]])]])])
                   else Inr (PDict [(''Journals'', PList [])])),
      clock_text = (\<lambda>n. ''01/02/2025 03:04:05''),
      builtin_int = (\<lambda>v. if v = PStr ''1573755038000'' then Inr 1573755038000
                          else if v = PStr ''1573755038314'' then Inr 1573755038314
                          else Inl ValueError),
      requested = [], xero_log = []\<rparr>"
  let ?line = "PDict [
         (''timestamp'', PInt 1573755038),
         (''extracted'', PStr ''01/02/2025 03:04:05''),
         (''journal_id'', PStr ''j1''),
         (''journal_number'', PInt 41),
         (''created_date_utc'', PInt 1573755038),
         (''journal_reference'', PNone),
         (''source_id'', PNone),
         (''journal_type'', PNone),
         (''journal_line_id'', PStr ''l1''),
         (''account_id'', PNone),
         (''account_code'', PNone),
         (''account_type'', PNone),
         (''account_name'', PNone),
         (''description'', PNone),
         (''net_amount'', PInt 10),
         (''gross_amount'', PNone),
         (''tax_amount'', PNone),
         (''tax_name'', PNone),
         (''tracking'', PNone)]"
  have pl0: "page_lines ?w 0 = Inr [?line]"
    by (simp add: page_lines_def thn_def simplify_journals_example)
  have pl1: "page_lines ?w 1 = Inr []"
    by (simp add: page_lines_def thn_def simplify_journals_def)
  have ue: "pages_until_empty ?w 1"
    using pl0 pl1 by (simp add: pages_until_empty_def)
  have rq: "requested ?w = []" by simp
  have n0: "normalized ?w 0 = [?line]" using pl0 by (simp add: normalized_def)
  have o0: "offset_after ?w 0 = PDict [(''offset'', PInt 41)]"
    by (simp add: offset_after_def n0)
  from get_journals_paginates [OF ue rq, of "''tenant''" "''token''"] obtain w' where
    r: "get_journals (Some (Some ''tenant'', Some ''token'')) ?w
          = Some (Inr (PList (concat (map (normalized ?w) [0..<1]))), w')"
    and q: "requested w' = PNone # map (offset_after ?w) [0..<1]" by blast
  from r have "fst (the (get_journals (Some (Some ''tenant'', Some ''token'')) ?w)) = Inr (PList [?line])"
    by (simp add: n0)
  moreover from r q have "requested (snd (the (get_journals (Some (Some ''tenant'', Some ''token'')) ?w)))
      = [PNone, PDict [(''offset'', PInt 41)]]"
    by (simp add: o0)
  ultimately show ?thesis using ue by blast
qed

subsection \<open>Stored tokens\<close>

lemma read_token_encrypted:
  assumes "fernet_contract F" "valid_key F key" "valid_utf8 plain"
  shows "read_token F (Some key) (Some (encrypt F key fresh plain)) = Inr (Some plain)"
proof -
  from assms(1,2) have d: "decrypt F key (encrypt F key fresh plain) = Some plain"
    and ne: "encrypt F key fresh plain \<noteq> []"
    by (simp_all add: fernet_contract_def)
  show ?thesis
    using assms(2,3) d ne by (simp add: read_token_def make_fernet_def thn_def decode_utf8_def)
qed

text \<open>
  C10. Under a Fernet that keeps its contract and a well-formed key, after a
  \<open>set_tokens\<close> whose commit went through, \<open>get_access_token\<close> and
  \<open>get_xero_refresh_token\<close> return exactly the two strings that were stored, whatever
  randomness the two encryptions drew; and each accessor returns \<open>None\<close> for a
  client whose column is \<open>None\<close>.
\<close>

theorem token_round_trip:
  assumes "fernet_contract F" and "valid_key F key" and "valid_utf8 access" and "valid_utf8 refresh"
  shows "fst (set_tokens F (Some key) fresh1 fresh2 Committed self access refresh expiry tenant) = None
       \<and> get_access_token F (Some key)
            (fst (snd (set_tokens F (Some key) fresh1 fresh2 Committed self access refresh expiry tenant)))
           = Inr (Some access)
       \<and> get_xero_refresh_token F (Some key)
            (fst (snd (set_tokens F (Some key) fresh1 fresh2 Committed self access refresh expiry tenant)))
           = Inr (Some refresh)
       \<and> (access_token c = None \<longrightarrow> get_access_token F config_key c = Inr None)
       \<and> (refresh_token c = None \<longrightarrow> get_xero_refresh_token F config_key c = Inr None)"
proof (intro conjI impI)
  let ?r = "set_tokens F (Some key) fresh1 fresh2 Committed self access refresh expiry tenant"
  have a: "access_token (fst (snd ?r)) = Some (encrypt F key fresh1 access)"
    and r: "refresh_token (fst (snd ?r)) = Some (encrypt F key fresh2 refresh)"
    and n: "fst ?r = None"
    using assms(2) by (simp_all add: set_tokens_def make_fernet_def Let_def split: option.splits)
  show "fst ?r = None" by (rule n)
  show "get_access_token F (Some key) (fst (snd ?r)) = Inr (Some access)"
    unfolding get_access_token_def a by (rule read_token_encrypted [OF assms(1,2,3)])
  show "get_xero_refresh_token F (Some key) (fst (snd ?r)) = Inr (Some refresh)"
    unfolding get_xero_refresh_token_def r by (rule read_token_encrypted [OF assms(1,2,4)])
next
  assume "access_token c = None"
  then show "get_access_token F config_key c = Inr None"
    by (simp add: get_access_token_def read_token_def)
next
  assume "refresh_token c = None"
  then show "get_xero_refresh_token F config_key c = Inr None"
    by (simp add: get_xero_refresh_token_def read_token_def)
qed

theorem token_round_trip_witness:
  "fernet_contract
     \<lparr>valid_key = (\<lambda>k. k \<noteq> []),
      encrypt = (\<lambda>k fresh plain. CHR ''g'' # rev plain),
      decrypt = (\<lambda>k token. case token of [] \<Rightarrow> None
                   | c # rest \<Rightarrow> if c = CHR ''g'' then Some (rev rest) else None)\<rparr>
   \<and> valid_utf8 [CHR ''t'', CHR 0xC3, CHR 0xA9] \<and> valid_utf8 ''ref''
   \<and> get_access_token
        \<lparr>valid_key = (\<lambda>k. k \<noteq> []),
      encrypt = (\<lambda>k fresh plain. CHR ''g'' # rev plain),
      decrypt = (\<lambda>k token. case token of [] \<Rightarrow> None
                   | c # rest \<Rightarrow> if c = CHR ''g'' then Some (rev rest) else None)\<rparr>
        (Some ''key'')
        (fst (snd (set_tokens
          \<lparr>valid_key = (\<lambda>k. k \<noteq> []),
      encrypt = (\<lambda>k fresh plain. CHR ''g'' # rev plain),
      decrypt = (\<lambda>k token. case token of [] \<Rightarrow> None
                   | c # rest \<Rightarrow> if c = CHR ''g'' then Some (rev rest) else None)\<rparr>
          (Some ''key'') ''iv1'' ''iv2'' Committed
          \<lparr>tenant_id = None, access_token = None, refresh_token = None, access_token_expiry = None\<rparr>
          [CHR ''t'', CHR 0xC3, CHR 0xA9] ''ref'' 1700000000 (Some ''tenant-1''))))
       = Inr (Some [CHR ''t'', CHR 0xC3, CHR 0xA9])
   \<and> get_xero_refresh_token
        \<lparr>valid_key = (\<lambda>k. k \<noteq> []),
      encrypt = (\<lambda>k fresh plain. CHR ''g'' # rev plain),
      decrypt = (\<lambda>k token. case token of [] \<Rightarrow> None
                   | c # rest \<Rightarrow> if c = CHR ''g'' then Some (rev rest) else None)\<rparr>
        (Some ''key'')
        (fst (snd (set_tokens
          \<lparr>valid_key = (\<lambda>k. k \<noteq> []),
      encrypt = (\<lambda>k fresh plain. CHR ''g'' # rev plain),
      decrypt = (\<lambda>k token. case token of [] \<Rightarrow> None
                   | c # rest \<Rightarrow> if c = CHR ''g'' then Some (rev rest) else None)\<rparr>
          (Some ''key'') ''iv1'' ''iv2'' Committed
          \<lparr>tenant_id = None, access_token = None, refresh_token = None, access_token_expiry = None\<rparr>
          [CHR ''t'', CHR 0xC3, CHR 0xA9] ''ref'' 1700000000 (Some ''tenant-1''))))
       = Inr (Some ''ref'')
   \<and> get_access_token
        \<lparr>valid_key = (\<lambda>k. k \<noteq> []),
      encrypt = (\<lambda>k fresh plain. CHR ''g'' # rev plain),
      decrypt = (\<lambda>k token. case token of [] \<Rightarrow> None
                   | c # rest \<Rightarrow> if c = CHR ''g'' then Some (rev rest) else None)\<rparr>
        (Some ''key'') \<lparr>tenant_id = None, access_token = None, refresh_token = None, access_token_expiry = None\<rparr> = Inr None"
proof -
  let ?F = "\<lparr>valid_key = (\<lambda>k. k \<noteq> []),
      encrypt = (\<lambda>k fresh plain. CHR ''g'' # rev plain),
      decrypt = (\<lambda>k token. case token of [] \<Rightarrow> None
                   | c # rest \<Rightarrow> if c = CHR ''g'' then Some (rev rest) else None)\<rparr>"
  let ?c = "\<lparr>tenant_id = None, access_token = None, refresh_token = None, access_token_expiry = None\<rparr>"
  have c: "fernet_contract ?F" by (simp add: fernet_contract_def)
  have k: "valid_key ?F ''key''" by simp
  have a: "valid_utf8 [CHR ''t'', CHR 0xC3, CHR 0xA9]" by (simp add: continuation_def)
  have r: "valid_utf8 ''ref''" by simp
  have n: "access_token ?c = None" by simp
  from token_round_trip [OF c k a r, of "''iv1''" "''iv2''" ?c 1700000000 "Some ''tenant-1''" ?c "Some ''key''"]
    c a r n
  show ?thesis by (simp only: simp_thms)
qed

end
